theory Spec2Isabelle
  imports Complex_Main
begin

section \<open>Decimal quantities\<close>

text \<open>
  Every quantity of the program is a Python \<open>Decimal\<close>. A \<open>Decimal\<close> denotes a rational
  number, and on the ranges of the model fields (\<open>max_digits=12\<close>, \<open>decimal_places=3\<close>,
  32-bit order quantities) the sums, differences and products the code forms stay far below
  the 28 significant digits of the default context, so they are exact. Quantities are
  therefore modelled by their values in \<open>rat\<close>.

  \<open>x.quantize(Decimal("0.001"))\<close> rounds to three decimal places with the rounding of the
  default context, \<open>ROUND_HALF_EVEN\<close>: to the nearest multiple of one thousandth, a tie
  going to the even one.
\<close>

type_synonym decimal = rat

definition round_half_even :: "rat \<Rightarrow> int" where
  "round_half_even x =
     (let f = \<lfloor>x\<rfloor>; d = x - of_int f
      in if d < 1 / 2 then f
         else if 1 / 2 < d then f + 1
         else if even f then f else f + 1)"

definition quantize3 :: "decimal \<Rightarrow> decimal" where
  "quantize3 x = of_int (round_half_even (x * 1000)) / 1000"

text \<open>
  A value with at most three decimal places.
\<close>

definition decimal3 :: "decimal \<Rightarrow> bool" where
  "decimal3 x \<longleftrightarrow> x * 1000 = of_int \<lfloor>x * 1000\<rfloor>"


section \<open>Inventory: raw materials and the inventory ledger\<close>

type_synonym user = nat
type_synonym timestamp = nat

record raw_material =
  rm_name :: string
  rm_unit :: string
  current_stock :: decimal
  rm_vendor_id :: nat

datatype txn_type = IN | OUT | ADJUST

text \<open>The reason texts the code writes; the f-strings keep their arguments.\<close>

datatype reason =
    Reason string
  | ConsumedByProductionOrder nat
  | ReleasedForProductionOrder nat
  | RevertedByCancellingProductionOrder nat
  | ReceivedAgainstPurchaseOrder nat string

record inventory_ledger =
  le_material :: nat
  le_txn_type :: txn_type
  le_quantity :: decimal
  le_unit :: string
  le_reason :: reason
  le_reference_type :: string
  le_reference_id :: nat
  le_created_by :: user

text \<open>
  A shortage line of an insufficient-stock message:
  \<open>"{name}: required {required} {unit}, available {current_stock}"\<close>, or
  \<open>"Material ID {id} missing from inventory."\<close>.
\<close>

datatype shortage =
    Shortage string decimal string decimal
  | MissingFromInventory nat

text \<open>
  The code raises \<open>ValueError\<close> and \<open>ValidationError\<close> with a message; one constructor
  stands for each message. \<open>DoesNotExist\<close> is what \<open>objects.get(pk=...)\<close> raises on a
  missing row and \<open>KeyError\<close> what a dictionary raises on a missing key.
\<close>

datatype error =
    DoesNotExist
  | KeyError
  | DatabaseError
      \<comment> \<open>a value that its column refuses (see the columns below)\<close>
  | AdjustmentZero
      \<comment> \<open>Adjustment quantity cannot be zero.\<close>
  | StockNegative
      \<comment> \<open>Stock cannot become negative.\<close>
  | NoBOM
      \<comment> \<open>No BOM defined for selected product.\<close>
  | InsufficientStock "shortage list"
      \<comment> \<open>Insufficient stock. ...\<close>
  | NotAwaitingRelease
      \<comment> \<open>This production order is not awaiting raw material release.\<close>
  | AlreadyReleased
      \<comment> \<open>Raw materials are already released for this production order.\<close>
  | NoRequirements
      \<comment> \<open>No raw material requirements found for this production order.\<close>
  | InsufficientStockForRelease "shortage list"
      \<comment> \<open>Insufficient stock for release. ...\<close>
  | ProductionAlreadyCancelled
      \<comment> \<open>Production order is already cancelled.\<close>
  | CompletedCannotBeCancelled
      \<comment> \<open>Completed production order cannot be cancelled.\<close>
  | NoLineItemGiven
      \<comment> \<open>Add at least one raw material line item.\<close>
  | QuantityNotPositive
      \<comment> \<open>Quantity must be greater than zero.\<close>
  | VendorNotValid
      \<comment> \<open>Selected vendor is not valid for purchase orders.\<close>
  | CancelledCannotBeReceived
      \<comment> \<open>Cancelled purchase order cannot be received.\<close>
  | AlreadyFullyReceived
      \<comment> \<open>Purchase order is already fully received.\<close>
  | NoLineItemsToReceive
      \<comment> \<open>Purchase order has no line items to receive.\<close>
  | NothingToReceive
      \<comment> \<open>Enter at least one quantity greater than zero.\<close>
  | NoPendingLeft
      \<comment> \<open>No pending quantities left to receive.\<close>
  | InvalidItemInPayload
      \<comment> \<open>Invalid purchase order item in receive payload.\<close>
  | ExceedsPending string decimal
      \<comment> \<open>Receive quantity for {name} cannot exceed pending {pending}.\<close>
  | ReceivedCannotBeCancelled
      \<comment> \<open>Fully received purchase order cannot be cancelled.\<close>
  | PurchaseAlreadyCancelled
      \<comment> \<open>Purchase order is already cancelled.\<close>
  | OnlyCancelledCanBeReopened
      \<comment> \<open>Only cancelled purchase orders can be reopened.\<close>
  | NoLineItems
      \<comment> \<open>Purchase order has no line items.\<close>
  | FullyReceivedCannotBeReopened
      \<comment> \<open>Fully received purchase order cannot be reopened.\<close>


section \<open>The database\<close>

datatype partner_type = SUPPLIER | BUYER | BOTH

record partner =
  partner_name :: string
  partner_type :: partner_type

record bom_item =
  bom_product :: nat
  bom_material_id :: nat
  qty_per_unit :: decimal

datatype production_status =
  AWAITING_RM_RELEASE | PLANNED | IN_PROGRESS | COMPLETED | CANCELLED

record production_order =
  order_id :: nat
  order_product :: nat
  order_quantity :: int
  planned_qty :: decimal
  produced_qty :: decimal
  scrap_qty :: decimal
  raw_material_released :: bool
  order_status :: production_status
  order_notes :: string
  order_created_by :: user
  completed_by :: "user option"
  completed_at :: "timestamp option"

record production_consumption =
  pc_production_order :: nat
  pc_material_id :: nat
  required_qty :: decimal

datatype purchase_status = OPEN | PARTIALLY_RECEIVED | RECEIVED | PO_CANCELLED

record purchase_order =
  po_id :: nat
  po_vendor :: nat
  po_order_date :: nat
  po_status :: purchase_status
  po_notes :: string
  po_created_by :: user
  received_by :: "user option"
  received_at :: "timestamp option"
  cancelled_by :: "user option"
  cancelled_at :: "timestamp option"

record purchase_order_item =
  item_id :: nat
  item_purchase_order :: nat
  item_material_id :: nat
  item_quantity :: decimal
  received_quantity :: decimal
  item_unit :: string

text \<open>
  The tables the operations read and write. Raw materials and partners are looked up by
  primary key only. The other tables are lists of rows. The tables that the operations
  query for several rows are in the order in which the query returns them, their
  \<open>Meta.ordering\<close>: consumption lines and purchase lines by id, which is the order of
  their creation, and BOM lines by product name and then by material name. Orders are
  read by primary key only and ledger entries are only written; both are in the order of
  their creation.
\<close>

record db =
  raw_materials :: "nat \<rightharpoonup> raw_material"
  ledger :: "inventory_ledger list"
  partners :: "nat \<rightharpoonup> partner"
  bom_items :: "bom_item list"
  production_orders :: "production_order list"
  consumptions :: "production_consumption list"
  purchase_orders :: "purchase_order list"
  purchase_order_items :: "purchase_order_item list"

text \<open>
  Columns. A \<open>DecimalField(max_digits=12, decimal_places=3)\<close> keeps three decimal places:
  saving quantizes the value to three places, and a value that then needs more than
  twelve digits is refused (\<open>decimal.InvalidOperation\<close> in Django's own quantize, a numeric
  overflow in the database). A \<open>PositiveIntegerField\<close> holds 0 to 2147483647: the database
  refuses a negative value by its check constraint (\<open>IntegrityError\<close>) and PostgreSQL,
  which production requires, a value above the range.
\<close>

definition db_decimal :: "decimal \<Rightarrow> error + decimal" where
  "db_decimal x =
     (let stored = quantize3 x
      in if \<bar>stored\<bar> < 1000000000 then Inr stored else Inl DatabaseError)"

definition db_positive_integer :: "int \<Rightarrow> error + int" where
  "db_positive_integer n = (if 0 \<le> n \<and> n \<le> 2147483647 then Inr n else Inl DatabaseError)"

text \<open>
  \<open>with transaction.atomic(): body\<close>: when the body raises, every write it made is rolled
  back and the exception propagates; otherwise its writes are committed.
\<close>

definition atomic :: "(db \<Rightarrow> error + 'a \<times> db) \<Rightarrow> db \<Rightarrow> (error + 'a) \<times> db" where
  "atomic body s = (case body s of Inl e \<Rightarrow> (Inl e, s) | Inr (x, s') \<Rightarrow> (Inr x, s'))"

text \<open>The id the database gives a new row: one more than every id of the table.\<close>

definition new_id :: "nat list \<Rightarrow> nat" where
  "new_id ids = Suc (fold max ids 0)"


subsection \<open>\<open>adjust_stock\<close>\<close>

text \<open>
  The object the function returns keeps the balance as computed; the row and the ledger
  entry hold what their columns keep of the balance and of \<open>abs(delta)\<close>.
\<close>

definition adjust_stock :: "nat \<Rightarrow> decimal \<Rightarrow> string \<Rightarrow> user \<Rightarrow> db \<Rightarrow> (error + raw_material) \<times> db" where
  "adjust_stock material delta reason_text created_by s =
     (if delta = 0 then (Inl AdjustmentZero, s)
      else atomic (\<lambda>s.
        case raw_materials s material of
          None \<Rightarrow> Inl DoesNotExist
        | Some locked \<Rightarrow>
            let new_stock = current_stock locked + delta in
            if new_stock < 0 then Inl StockNegative
            else
              let locked = locked\<lparr>current_stock := new_stock\<rparr> in
              (case db_decimal (current_stock locked) of
                 Inl e \<Rightarrow> Inl e
               | Inr stored_stock \<Rightarrow>
                   let s = s\<lparr>raw_materials :=
                             (raw_materials s)(material \<mapsto> locked\<lparr>current_stock := stored_stock\<rparr>)\<rparr>
                   in (case db_decimal \<bar>delta\<bar> of
                         Inl e \<Rightarrow> Inl e
                       | Inr stored_quantity \<Rightarrow>
                           let s = s\<lparr>ledger := ledger s @
                                     [\<lparr>le_material = material,
                                       le_txn_type = (if delta > 0 then IN else OUT),
                                       le_quantity = stored_quantity,
                                       le_unit = rm_unit locked,
                                       le_reason = Reason reason_text,
                                       le_reference_type = ''manual_adjustment'',
                                       le_reference_id = material,
                                       le_created_by = created_by\<rparr>]\<rparr>
                           in Inr (locked, s)))) s)"


section \<open>Production orders\<close>

definition get_production_order :: "db \<Rightarrow> nat \<Rightarrow> production_order option" where
  "get_production_order s pk = find (\<lambda>row. order_id row = pk) (production_orders s)"

definition save_production_order :: "production_order \<Rightarrow> db \<Rightarrow> db" where
  "save_production_order order s =
     s\<lparr>production_orders :=
         map (\<lambda>row. if order_id row = order_id order then order else row) (production_orders s)\<rparr>"

text \<open>\<open>BOMItem.objects.filter(product=product)\<close>\<close>

definition bom_of :: "db \<Rightarrow> nat \<Rightarrow> bom_item list" where
  "bom_of s product = filter (\<lambda>item. bom_product item = product) (bom_items s)"

text \<open>\<open>locked_order.consumptions\<close>, the consumption lines of an order, by id.\<close>

definition consumptions_of :: "db \<Rightarrow> nat \<Rightarrow> production_consumption list" where
  "consumptions_of s pk = filter (\<lambda>c. pc_production_order c = pk) (consumptions s)"

text \<open>
  \<open>ProductionOrder.objects.create(...)\<close>: the row is written when the columns of
  \<open>quantity\<close> (a \<open>PositiveIntegerField\<close>) and of \<open>planned_qty\<close> accept their values, with
  the values the columns keep.
\<close>

definition insert_production_order :: "production_order \<Rightarrow> db \<Rightarrow> error + db" where
  "insert_production_order order s =
     (case db_positive_integer (order_quantity order) of
        Inl e \<Rightarrow> Inl e
      | Inr stored_quantity \<Rightarrow>
          (case db_decimal (planned_qty order) of
             Inl e \<Rightarrow> Inl e
           | Inr stored_planned \<Rightarrow>
               Inr (s\<lparr>production_orders := production_orders s @
                        [order\<lparr>order_quantity := stored_quantity,
                               planned_qty := stored_planned\<rparr>]\<rparr>)))"

subsection \<open>\<open>create_production_order_and_deduct_stock\<close>\<close>

text \<open>
  The first loop: the requirement of every BOM line and the shortages, both in the order
  of the BOM lines. \<open>materials[item.material_id]\<close> raises \<open>KeyError\<close> for a material that
  the locked query did not return.
\<close>

fun check_requirements ::
  "(nat \<rightharpoonup> raw_material) \<Rightarrow> int \<Rightarrow> bom_item list \<Rightarrow>
     error + shortage list \<times> (bom_item \<times> decimal) list" where
  "check_requirements materials quantity [] = Inr ([], [])"
| "check_requirements materials quantity (item # items) =
     (case materials (bom_material_id item) of
        None \<Rightarrow> Inl KeyError
      | Some material \<Rightarrow>
          let required = quantize3 (qty_per_unit item * of_int quantity) in
          (case check_requirements materials quantity items of
             Inl e \<Rightarrow> Inl e
           | Inr (shortages, requirements) \<Rightarrow>
               Inr ((if current_stock material < required
                     then [Shortage (rm_name material) required (rm_unit material)
                             (current_stock material)]
                     else []) @ shortages,
                    (item, required) # requirements)))"

text \<open>
  The second loop: deduct, write the consumption line, write the ledger entry. The
  requirement goes into the columns \<open>required_qty\<close> and \<open>quantity\<close>, both of
  \<open>max_digits=12\<close> and \<open>decimal_places=3\<close>. The balance is written as computed: it is the
  difference of a balance read from its column and a requirement that is not above it,
  both of three decimal places.
\<close>

fun consume_requirements ::
  "production_order \<Rightarrow> user \<Rightarrow> (bom_item \<times> decimal) list \<Rightarrow> db \<Rightarrow> error + db" where
  "consume_requirements order created_by [] s = Inr s"
| "consume_requirements order created_by ((item, required) # requirements) s =
     (case raw_materials s (bom_material_id item) of
        None \<Rightarrow> Inl KeyError
      | Some material \<Rightarrow>
          let material = material\<lparr>current_stock := current_stock material - required\<rparr>;
              s = s\<lparr>raw_materials := (raw_materials s)(bom_material_id item \<mapsto> material)\<rparr>
          in (case db_decimal required of
                Inl e \<Rightarrow> Inl e
              | Inr stored_required \<Rightarrow>
                  let s = s\<lparr>consumptions := consumptions s @
                            [\<lparr>pc_production_order = order_id order,
                              pc_material_id = bom_material_id item,
                              required_qty = stored_required\<rparr>]\<rparr>;
                      s = s\<lparr>ledger := ledger s @
                            [\<lparr>le_material = bom_material_id item,
                              le_txn_type = OUT,
                              le_quantity = stored_required,
                              le_unit = rm_unit material,
                              le_reason = ConsumedByProductionOrder (order_id order),
                              le_reference_type = ''production_order'',
                              le_reference_id = order_id order,
                              le_created_by = created_by\<rparr>]\<rparr>
                  in consume_requirements order created_by requirements s))"

definition create_production_order_and_deduct_stock ::
  "nat \<Rightarrow> int \<Rightarrow> string \<Rightarrow> user \<Rightarrow> db \<Rightarrow> (error + production_order) \<times> db" where
  "create_production_order_and_deduct_stock product quantity notes created_by s =
     (let bom_items = bom_of s product in
      if bom_items = [] then (Inl NoBOM, s)
      else atomic (\<lambda>s.
        case check_requirements (raw_materials s) quantity bom_items of
          Inl e \<Rightarrow> Inl e
        | Inr (shortages, requirements) \<Rightarrow>
            if shortages \<noteq> [] then Inl (InsufficientStock shortages)
            else
              let order = \<lparr>order_id = new_id (map order_id (production_orders s)),
                           order_product = product,
                           order_quantity = quantity,
                           planned_qty = quantize3 (of_int quantity),
                           produced_qty = 0,
                           scrap_qty = 0,
                           raw_material_released = True,
                           order_status = PLANNED,
                           order_notes = notes,
                           order_created_by = created_by,
                           completed_by = None,
                           completed_at = None\<rparr>
              in (case insert_production_order order s of
                    Inl e \<Rightarrow> Inl e
                  | Inr s \<Rightarrow>
                      (case consume_requirements order created_by requirements s of
                         Inl e \<Rightarrow> Inl e
                       | Inr s \<Rightarrow> Inr (order, s)))) s)"

subsection \<open>\<open>create_production_order_with_rm_request\<close>\<close>

text \<open>The loop: one consumption line for every BOM line, in the order of the BOM lines.\<close>

fun snapshot_requirements ::
  "production_order \<Rightarrow> int \<Rightarrow> bom_item list \<Rightarrow> db \<Rightarrow> error + db" where
  "snapshot_requirements order quantity [] s = Inr s"
| "snapshot_requirements order quantity (item # items) s =
     (let required = quantize3 (qty_per_unit item * of_int quantity) in
      case db_decimal required of
        Inl e \<Rightarrow> Inl e
      | Inr stored_required \<Rightarrow>
          let s = s\<lparr>consumptions := consumptions s @
                    [\<lparr>pc_production_order = order_id order,
                      pc_material_id = bom_material_id item,
                      required_qty = stored_required\<rparr>]\<rparr>
          in snapshot_requirements order quantity items s)"

definition create_production_order_with_rm_request ::
  "nat \<Rightarrow> int \<Rightarrow> string \<Rightarrow> user \<Rightarrow> db \<Rightarrow> (error + production_order) \<times> db" where
  "create_production_order_with_rm_request product quantity notes created_by s =
     (let bom_items = bom_of s product in
      if bom_items = [] then (Inl NoBOM, s)
      else atomic (\<lambda>s.
        let order = \<lparr>order_id = new_id (map order_id (production_orders s)),
                     order_product = product,
                     order_quantity = quantity,
                     planned_qty = quantize3 (of_int quantity),
                     produced_qty = 0,
                     scrap_qty = 0,
                     raw_material_released = False,
                     order_status = AWAITING_RM_RELEASE,
                     order_notes = notes,
                     order_created_by = created_by,
                     completed_by = None,
                     completed_at = None\<rparr>
        in (case insert_production_order order s of
              Inl e \<Rightarrow> Inl e
            | Inr s \<Rightarrow>
                (case snapshot_requirements order quantity bom_items s of
                   Inl e \<Rightarrow> Inl e
                 | Inr s \<Rightarrow> Inr (order, s)))) s)"

subsection \<open>\<open>release_raw_materials_for_production_order\<close>\<close>

fun release_shortages ::
  "(nat \<rightharpoonup> raw_material) \<Rightarrow> production_consumption list \<Rightarrow> shortage list" where
  "release_shortages materials [] = []"
| "release_shortages materials (consumption # rest) =
     (case materials (pc_material_id consumption) of
        None \<Rightarrow> [MissingFromInventory (pc_material_id consumption)]
      | Some material \<Rightarrow>
          if current_stock material < required_qty consumption
          then [Shortage (rm_name material) (required_qty consumption) (rm_unit material)
                  (current_stock material)]
          else [])
     @ release_shortages materials rest"

fun release_consumptions ::
  "nat \<Rightarrow> user \<Rightarrow> production_consumption list \<Rightarrow> db \<Rightarrow> error + db" where
  "release_consumptions pk released_by [] s = Inr s"
| "release_consumptions pk released_by (consumption # rest) s =
     (case raw_materials s (pc_material_id consumption) of
        None \<Rightarrow> Inl KeyError
      | Some material \<Rightarrow>
          let material = material\<lparr>current_stock :=
                            current_stock material - required_qty consumption\<rparr>;
              s = s\<lparr>raw_materials :=
                    (raw_materials s)(pc_material_id consumption \<mapsto> material)\<rparr>;
              s = s\<lparr>ledger := ledger s @
                    [\<lparr>le_material = pc_material_id consumption,
                      le_txn_type = OUT,
                      le_quantity = required_qty consumption,
                      le_unit = rm_unit material,
                      le_reason = ReleasedForProductionOrder pk,
                      le_reference_type = ''production_order'',
                      le_reference_id = pk,
                      le_created_by = released_by\<rparr>]\<rparr>
          in release_consumptions pk released_by rest s)"

definition release_raw_materials_for_production_order ::
  "nat \<Rightarrow> user \<Rightarrow> db \<Rightarrow> (error + production_order) \<times> db" where
  "release_raw_materials_for_production_order pk released_by s =
     atomic (\<lambda>s.
       case get_production_order s pk of
         None \<Rightarrow> Inl DoesNotExist
       | Some locked_order \<Rightarrow>
           if order_status locked_order \<noteq> AWAITING_RM_RELEASE then Inl NotAwaitingRelease
           else if raw_material_released locked_order then Inl AlreadyReleased
           else
             let consumptions = consumptions_of s pk in
             if consumptions = [] then Inl NoRequirements
             else
               let shortages = release_shortages (raw_materials s) consumptions in
               if shortages \<noteq> [] then Inl (InsufficientStockForRelease shortages)
               else
                 (case release_consumptions pk released_by consumptions s of
                    Inl e \<Rightarrow> Inl e
                  | Inr s \<Rightarrow>
                      let locked_order = locked_order\<lparr>raw_material_released := True,
                                                      order_status := PLANNED\<rparr>
                      in Inr (locked_order, save_production_order locked_order s))) s"

subsection \<open>\<open>cancel_production_order\<close>\<close>

fun revert_consumptions ::
  "nat \<Rightarrow> user \<Rightarrow> production_consumption list \<Rightarrow> db \<Rightarrow> db" where
  "revert_consumptions pk user [] s = s"
| "revert_consumptions pk user (consumption # rest) s =
     (case raw_materials s (pc_material_id consumption) of
        None \<Rightarrow> revert_consumptions pk user rest s
      | Some material \<Rightarrow>
          let material = material\<lparr>current_stock :=
                            current_stock material + required_qty consumption\<rparr>;
              s = s\<lparr>raw_materials :=
                    (raw_materials s)(pc_material_id consumption \<mapsto> material)\<rparr>;
              s = s\<lparr>ledger := ledger s @
                    [\<lparr>le_material = pc_material_id consumption,
                      le_txn_type = IN,
                      le_quantity = required_qty consumption,
                      le_unit = rm_unit material,
                      le_reason = RevertedByCancellingProductionOrder pk,
                      le_reference_type = ''production_order'',
                      le_reference_id = pk,
                      le_created_by = user\<rparr>]\<rparr>
          in revert_consumptions pk user rest s)"

definition cancel_production_order ::
  "nat \<Rightarrow> user \<Rightarrow> db \<Rightarrow> (error + production_order) \<times> db" where
  "cancel_production_order pk user s =
     atomic (\<lambda>s.
       case get_production_order s pk of
         None \<Rightarrow> Inl DoesNotExist
       | Some locked_order \<Rightarrow>
           if order_status locked_order = CANCELLED then Inl ProductionAlreadyCancelled
           else if order_status locked_order = COMPLETED then Inl CompletedCannotBeCancelled
           else
             let s = (if raw_material_released locked_order
                      then revert_consumptions pk user (consumptions_of s pk) s
                      else s);
                 locked_order = locked_order\<lparr>order_status := CANCELLED\<rparr>
             in Inr (locked_order, save_production_order locked_order s)) s"


section \<open>Purchase orders\<close>

definition pending_quantity :: "purchase_order_item \<Rightarrow> decimal" where
  "pending_quantity item =
     (let pending = item_quantity item - received_quantity item
      in if pending > 0 then pending else 0)"

text \<open>
  \<open>PurchaseLineInput\<close>: the material object of a line (with its primary key) and the
  quantity to order.
\<close>

record purchase_line_input =
  line_material_id :: nat
  line_material :: raw_material
  line_quantity :: decimal

definition get_purchase_order :: "db \<Rightarrow> nat \<Rightarrow> purchase_order option" where
  "get_purchase_order s pk = find (\<lambda>row. po_id row = pk) (purchase_orders s)"

definition save_purchase_order :: "purchase_order \<Rightarrow> db \<Rightarrow> db" where
  "save_purchase_order order s =
     s\<lparr>purchase_orders :=
         map (\<lambda>row. if po_id row = po_id order then order else row) (purchase_orders s)\<rparr>"

text \<open>\<open>locked_order.items\<close>, the lines of an order, by id.\<close>

definition items_of :: "db \<Rightarrow> nat \<Rightarrow> purchase_order_item list" where
  "items_of s pk = filter (\<lambda>item. item_purchase_order item = pk) (purchase_order_items s)"

definition save_item :: "purchase_order_item \<Rightarrow> db \<Rightarrow> db" where
  "save_item item s =
     s\<lparr>purchase_order_items :=
         map (\<lambda>i. if item_id i = item_id item then item else i) (purchase_order_items s)\<rparr>"

text \<open>
  \<open>item.material.name\<close>: the material of a line is a protected foreign key, so its row is
  there; the empty name stands for a dangling key.
\<close>

definition material_name :: "db \<Rightarrow> nat \<Rightarrow> string" where
  "material_name s k = (case raw_materials s k of Some m \<Rightarrow> rm_name m | None \<Rightarrow> [])"

subsection \<open>\<open>create_grouped_purchase_orders_with_vendor\<close>\<close>

text \<open>
  \<open>grouped[key].append(line)\<close> on a \<open>defaultdict(list)\<close>: a dictionary keeps its keys in
  the order of their first insertion, so it is an association list with distinct keys.
\<close>

fun grouped_append :: "nat \<Rightarrow> 'a \<Rightarrow> (nat \<times> 'a list) list \<Rightarrow> (nat \<times> 'a list) list" where
  "grouped_append key line [] = [(key, [line])]"
| "grouped_append key line ((k, ls) # grouped) =
     (if k = key then (k, ls @ [line]) # grouped
      else (k, ls) # grouped_append key line grouped)"

definition group_lines :: "purchase_line_input list \<Rightarrow> (nat \<times> purchase_line_input list) list" where
  "group_lines lines =
     fold (\<lambda>line grouped. grouped_append (rm_vendor_id (line_material line)) line grouped)
       lines []"

text \<open>\<open>PurchaseOrderItem.objects.create(...)\<close> for every line of one order.\<close>

fun create_items :: "nat \<Rightarrow> purchase_line_input list \<Rightarrow> db \<Rightarrow> db" where
  "create_items order [] s = s"
| "create_items order (line # lines) s =
     create_items order lines
       (s\<lparr>purchase_order_items := purchase_order_items s @
           [\<lparr>item_id = new_id (map item_id (purchase_order_items s)),
             item_purchase_order = order,
             item_material_id = line_material_id line,
             item_quantity = line_quantity line,
             received_quantity = 0,
             item_unit = rm_unit (line_material line)\<rparr>]\<rparr>)"

definition new_purchase_order :: "db \<Rightarrow> nat \<Rightarrow> nat \<Rightarrow> string \<Rightarrow> user \<Rightarrow> purchase_order" where
  "new_purchase_order s vendor order_date notes created_by =
     \<lparr>po_id = new_id (map po_id (purchase_orders s)),
      po_vendor = vendor,
      po_order_date = order_date,
      po_status = OPEN,
      po_notes = notes,
      po_created_by = created_by,
      received_by = None,
      received_at = None,
      cancelled_by = None,
      cancelled_at = None\<rparr>"

fun create_grouped_orders ::
  "nat \<Rightarrow> string \<Rightarrow> user \<Rightarrow> (nat \<times> purchase_line_input list) list \<Rightarrow> db \<Rightarrow>
     error + purchase_order list \<times> db" where
  "create_grouped_orders order_date notes created_by [] s = Inr ([], s)"
| "create_grouped_orders order_date notes created_by ((vendor_id, vendor_lines) # grouped) s =
     (case partners s vendor_id of
        None \<Rightarrow> Inl DoesNotExist
      | Some grouped_vendor \<Rightarrow>
          let order = new_purchase_order s vendor_id order_date notes created_by;
              s = s\<lparr>purchase_orders := purchase_orders s @ [order]\<rparr>;
              s = create_items (po_id order) vendor_lines s
          in (case create_grouped_orders order_date notes created_by grouped s of
                Inl e \<Rightarrow> Inl e
              | Inr (created_orders, s) \<Rightarrow> Inr (order # created_orders, s)))"

definition create_grouped_purchase_orders_with_vendor ::
  "nat \<Rightarrow> string \<Rightarrow> user \<Rightarrow> purchase_line_input list \<Rightarrow> (nat \<times> partner) option \<Rightarrow> db \<Rightarrow>
     (error + purchase_order list) \<times> db" where
  "create_grouped_purchase_orders_with_vendor order_date notes created_by lines vendor s =
     (if lines = [] then (Inl NoLineItemGiven, s)
      else if list_ex (\<lambda>line. line_quantity line \<le> 0) lines then (Inl QuantityNotPositive, s)
      else
        (case vendor of
           Some (vendor_pk, vendor) \<Rightarrow>
             if partner_type vendor \<notin> {SUPPLIER, BOTH} then (Inl VendorNotValid, s)
             else atomic (\<lambda>s.
               let order = new_purchase_order s vendor_pk order_date notes created_by;
                   s = s\<lparr>purchase_orders := purchase_orders s @ [order]\<rparr>;
                   s = create_items (po_id order) lines s
               in Inr ([order], s)) s
         | None \<Rightarrow>
             let grouped = group_lines lines
             in atomic (create_grouped_orders order_date notes created_by grouped) s))"

definition create_grouped_purchase_orders ::
  "nat \<Rightarrow> string \<Rightarrow> user \<Rightarrow> purchase_line_input list \<Rightarrow> db \<Rightarrow>
     (error + purchase_order list) \<times> db" where
  "create_grouped_purchase_orders order_date notes created_by lines s =
     create_grouped_purchase_orders_with_vendor order_date notes created_by lines None s"

subsection \<open>\<open>_derive_status\<close> and \<open>receive_purchase_order\<close>\<close>

definition derive_status :: "purchase_order_item list \<Rightarrow> purchase_status" where
  "derive_status items =
     (let all_received = list_all (\<lambda>item. received_quantity item \<ge> item_quantity item) items;
          any_received = list_ex (\<lambda>item. received_quantity item > 0) items
      in if all_received then RECEIVED
         else if any_received then PARTIALLY_RECEIVED
         else OPEN)"

text \<open>
  The quantities to receive, a dictionary from line ids to quantities: the entries of the
  payload that are greater than zero, or, without a payload (\<open>None\<close> or an empty
  dictionary, both false for \<open>if line_quantities\<close>), the pending quantity of every line
  that has one.
\<close>

definition receive_quantities ::
  "purchase_order_item list \<Rightarrow> (nat \<times> decimal) list option \<Rightarrow> error + (nat \<times> decimal) list" where
  "receive_quantities items line_quantities =
     (if (case line_quantities of None \<Rightarrow> False | Some lq \<Rightarrow> lq \<noteq> []) then
        let quantities = filter (\<lambda>(item_id, quantity). quantity \<noteq> 0 \<and> quantity > 0)
                           (the line_quantities)
        in if quantities = [] then Inl NothingToReceive else Inr quantities
      else
        let quantities = map (\<lambda>item. (item_id item, pending_quantity item))
                           (filter (\<lambda>item. pending_quantity item > 0) items)
        in if quantities = [] then Inl NoPendingLeft else Inr quantities)"

text \<open>The loop that compares every quantity with the pending quantity of its line.\<close>

fun check_pending ::
  "db \<Rightarrow> purchase_order_item list \<Rightarrow> (nat \<times> decimal) list \<Rightarrow> error + unit" where
  "check_pending s items [] = Inr ()"
| "check_pending s items ((k, qty) # quantities) =
     (case find (\<lambda>item. item_id item = k) items of
        None \<Rightarrow> Inl KeyError
      | Some item \<Rightarrow>
          if qty > pending_quantity item
          then Inl (ExceedsPending (material_name s (item_material_id item))
                      (pending_quantity item))
          else check_pending s items quantities)"

text \<open>\<open>quantities.get(item.id, Decimal("0"))\<close>\<close>

definition quantity_for :: "(nat \<times> decimal) list \<Rightarrow> purchase_order_item \<Rightarrow> decimal" where
  "quantity_for quantities item =
     (case map_of quantities (item_id item) of None \<Rightarrow> 0 | Some q \<Rightarrow> q)"

text \<open>
  The receiving loop. \<open>materials\<close> are the locked material objects in memory and the
  lines are the line objects in memory: they keep the quantities as computed, and the
  rows keep what their columns hold of them. The loop returns the lines as it leaves
  them in memory, which \<open>_derive_status\<close> then reads.
\<close>

fun receive_items ::
  "nat \<Rightarrow> user \<Rightarrow> (nat \<times> decimal) list \<Rightarrow> (nat \<rightharpoonup> raw_material) \<Rightarrow>
     purchase_order_item list \<Rightarrow> db \<Rightarrow> error + purchase_order_item list \<times> db" where
  "receive_items pk user quantities materials [] s = Inr ([], s)"
| "receive_items pk user quantities materials (item # items) s =
     (let receive_qty = quantity_for quantities item in
      if receive_qty \<le> 0 then
        (case receive_items pk user quantities materials items s of
           Inl e \<Rightarrow> Inl e
         | Inr (items', s) \<Rightarrow> Inr (item # items', s))
      else
        (case materials (item_material_id item) of
           None \<Rightarrow> Inl KeyError
         | Some material \<Rightarrow>
             let material = material\<lparr>current_stock := current_stock material + receive_qty\<rparr>;
                 materials = materials(item_material_id item \<mapsto> material)
             in (case db_decimal (current_stock material) of
                   Inl e \<Rightarrow> Inl e
                 | Inr stored_stock \<Rightarrow>
                     let s = s\<lparr>raw_materials := (raw_materials s)
                               (item_material_id item \<mapsto>
                                  material\<lparr>current_stock := stored_stock\<rparr>)\<rparr>;
                         item = item\<lparr>received_quantity := received_quantity item + receive_qty\<rparr>
                     in (case db_decimal (received_quantity item) of
                           Inl e \<Rightarrow> Inl e
                         | Inr stored_received \<Rightarrow>
                             let s = save_item (item\<lparr>received_quantity := stored_received\<rparr>) s
                             in (case db_decimal receive_qty of
                                   Inl e \<Rightarrow> Inl e
                                 | Inr stored_quantity \<Rightarrow>
                                     let s = s\<lparr>ledger := ledger s @
                                               [\<lparr>le_material = item_material_id item,
                                                 le_txn_type = IN,
                                                 le_quantity = stored_quantity,
                                                 le_unit = item_unit item,
                                                 le_reason = ReceivedAgainstPurchaseOrder pk
                                                   (material_name s (item_material_id item)),
                                                 le_reference_type = ''purchase_order'',
                                                 le_reference_id = pk,
                                                 le_created_by = user\<rparr>]\<rparr>
                                     in (case receive_items pk user quantities materials items s of
                                           Inl e \<Rightarrow> Inl e
                                         | Inr (items', s) \<Rightarrow> Inr (item # items', s)))))))"

definition receive_purchase_order ::
  "nat \<Rightarrow> user \<Rightarrow> timestamp \<Rightarrow> (nat \<times> decimal) list option \<Rightarrow> db \<Rightarrow>
     (error + purchase_order) \<times> db" where
  "receive_purchase_order pk user now line_quantities s =
     atomic (\<lambda>s.
       case get_purchase_order s pk of
         None \<Rightarrow> Inl DoesNotExist
       | Some locked_order \<Rightarrow>
           if po_status locked_order = PO_CANCELLED then Inl CancelledCannotBeReceived
           else if po_status locked_order = RECEIVED then Inl AlreadyFullyReceived
           else
             let items = items_of s pk in
             if items = [] then Inl NoLineItemsToReceive
             else
               (case receive_quantities items line_quantities of
                  Inl e \<Rightarrow> Inl e
                | Inr quantities \<Rightarrow>
                    if list_ex (\<lambda>k. k \<notin> set (map item_id items)) (map fst quantities)
                    then Inl InvalidItemInPayload
                    else
                      (case check_pending s items quantities of
                         Inl e \<Rightarrow> Inl e
                       | Inr _ \<Rightarrow>
                           let material_ids = map item_material_id items;
                               materials = raw_materials s |` set material_ids
                           in
                           (case receive_items pk user quantities materials items s of
                              Inl e \<Rightarrow> Inl e
                            | Inr (items, s) \<Rightarrow>
                                let new_status = derive_status items;
                                    locked_order = locked_order\<lparr>po_status := new_status\<rparr>;
                                    locked_order =
                                      (if new_status = RECEIVED
                                       then locked_order\<lparr>received_by := Some user,
                                                         received_at := Some now\<rparr>
                                       else locked_order)
                                in Inr (locked_order, save_purchase_order locked_order s))))) s"

subsection \<open>\<open>cancel_purchase_order\<close> and \<open>reopen_purchase_order\<close>\<close>

definition cancel_purchase_order ::
  "nat \<Rightarrow> user \<Rightarrow> timestamp \<Rightarrow> db \<Rightarrow> (error + purchase_order) \<times> db" where
  "cancel_purchase_order pk user now s =
     atomic (\<lambda>s.
       case get_purchase_order s pk of
         None \<Rightarrow> Inl DoesNotExist
       | Some locked_order \<Rightarrow>
           if po_status locked_order = RECEIVED then Inl ReceivedCannotBeCancelled
           else if po_status locked_order = PO_CANCELLED then Inl PurchaseAlreadyCancelled
           else
             let locked_order = locked_order\<lparr>po_status := PO_CANCELLED,
                                             cancelled_by := Some user,
                                             cancelled_at := Some now\<rparr>
             in Inr (locked_order, save_purchase_order locked_order s)) s"

definition reopen_purchase_order :: "nat \<Rightarrow> db \<Rightarrow> (error + purchase_order) \<times> db" where
  "reopen_purchase_order pk s =
     atomic (\<lambda>s.
       case get_purchase_order s pk of
         None \<Rightarrow> Inl DoesNotExist
       | Some locked_order \<Rightarrow>
           if po_status locked_order \<noteq> PO_CANCELLED then Inl OnlyCancelledCanBeReopened
           else
             let items = items_of s pk in
             if items = [] then Inl NoLineItems
             else
               let pending_exists = list_ex (\<lambda>item. pending_quantity item > 0) items in
               if \<not> pending_exists then Inl FullyReceivedCannotBeReopened
               else
                 let has_receipts = list_ex (\<lambda>item. received_quantity item > 0) items;
                     locked_order = locked_order\<lparr>po_status :=
                                       (if has_receipts then PARTIALLY_RECEIVED else OPEN),
                                     cancelled_by := None,
                                     cancelled_at := None\<rparr>
                 in Inr (locked_order, save_purchase_order locked_order s)) s"


section \<open>Notions of the specification\<close>

text \<open>The balance of a material account, as a balance read returns it.\<close>

definition stock :: "db \<Rightarrow> nat \<Rightarrow> decimal" where
  "stock s m = (case raw_materials s m of Some material \<Rightarrow> current_stock material | None \<Rightarrow> 0)"


text \<open>
  The movement a ledger entry records for a material: its quantity, counted positive for
  \<open>IN\<close> and negative for \<open>OUT\<close>; and the net movement of a list of entries.
\<close>

definition signed_quantity :: "nat \<Rightarrow> inventory_ledger \<Rightarrow> decimal" where
  "signed_quantity m e =
     (if le_material e = m
      then (case le_txn_type e of IN \<Rightarrow> le_quantity e | OUT \<Rightarrow> - le_quantity e | ADJUST \<Rightarrow> 0)
      else 0)"

definition ledger_delta :: "nat \<Rightarrow> inventory_ledger list \<Rightarrow> decimal" where
  "ledger_delta m es = sum_list (map (signed_quantity m) es)"

text \<open>
  Integrity constraints of the schema: a consumption line belongs to an existing
  production order and a purchase line to an existing purchase order (foreign keys), and
  the lines of a purchase order have distinct ids (primary key).
\<close>

definition consumptions_have_orders :: "db \<Rightarrow> bool" where
  "consumptions_have_orders s \<longleftrightarrow>
     list_all (\<lambda>c. pc_production_order c \<in> set (map order_id (production_orders s)))
       (consumptions s)"

definition items_have_orders :: "db \<Rightarrow> bool" where
  "items_have_orders s \<longleftrightarrow>
     list_all (\<lambda>item. item_purchase_order item \<in> set (map po_id (purchase_orders s)))
       (purchase_order_items s)"



text \<open>
  The accepted lines of a receipt: the lines of the order for which the quantities to
  receive hold an amount greater than zero.
\<close>

definition accepted_lines ::
  "(nat \<times> decimal) list \<Rightarrow> purchase_order_item list \<Rightarrow> purchase_order_item list" where
  "accepted_lines quantities items = filter (\<lambda>item. 0 < quantity_for quantities item) items"


section \<open>Example data\<close>

definition canvas :: raw_material where
  "canvas = \<lparr>rm_name = ''Canvas'', rm_unit = ''m'', current_stock = 100, rm_vendor_id = 1\<rparr>"

definition thread :: raw_material where
  "thread = \<lparr>rm_name = ''Thread'', rm_unit = ''kg'', current_stock = 5, rm_vendor_id = 2\<rparr>"

definition zipper :: raw_material where
  "zipper = \<lparr>rm_name = ''Zipper'', rm_unit = ''pieces'', current_stock = 4, rm_vendor_id = 2\<rparr>"

text \<open>
  Three materials of two vendors and one product (id 1) whose bill of materials takes
  2 m of canvas, 0.5 kg of thread and one zipper per unit.
\<close>

definition db0 :: db where
  "db0 = \<lparr>raw_materials = [1 \<mapsto> canvas, 2 \<mapsto> thread, 3 \<mapsto> zipper],
          ledger = [],
          partners = [1 \<mapsto> \<lparr>partner_name = ''Weavers'', partner_type = SUPPLIER\<rparr>,
                      2 \<mapsto> \<lparr>partner_name = ''Notions'', partner_type = BOTH\<rparr>],
          bom_items = [\<lparr>bom_product = 1, bom_material_id = 1, qty_per_unit = 2\<rparr>,
                       \<lparr>bom_product = 1, bom_material_id = 2, qty_per_unit = 1 / 2\<rparr>,
                       \<lparr>bom_product = 1, bom_material_id = 3, qty_per_unit = 1\<rparr>],
          production_orders = [],
          consumptions = [],
          purchase_orders = [],
          purchase_order_items = []\<rparr>"


text \<open>The same database with every balance at zero.\<close>

definition db_no_stock :: db where
  "db_no_stock =
     db0\<lparr>raw_materials := [1 \<mapsto> canvas\<lparr>current_stock := 0\<rparr>,
                             2 \<mapsto> thread\<lparr>current_stock := 0\<rparr>,
                             3 \<mapsto> zipper\<lparr>current_stock := 0\<rparr>]\<rparr>"



text \<open>
  Two open purchase orders: order 1 with one line (10 m of canvas) and order 2 with two
  lines (10 kg of thread and 10 zippers).
\<close>

definition db_po :: db where
  "db_po =
     db0\<lparr>purchase_orders :=
           [\<lparr>po_id = 1, po_vendor = 1, po_order_date = 20260220, po_status = OPEN,
             po_notes = ''Restock'', po_created_by = 7, received_by = None,
             received_at = None, cancelled_by = None, cancelled_at = None\<rparr>,
            \<lparr>po_id = 2, po_vendor = 2, po_order_date = 20260220, po_status = OPEN,
             po_notes = ''Restock'', po_created_by = 7, received_by = None,
             received_at = None, cancelled_by = None, cancelled_at = None\<rparr>],
         purchase_order_items :=
           [\<lparr>item_id = 1, item_purchase_order = 1, item_material_id = 1,
             item_quantity = 10, received_quantity = 0, item_unit = ''m''\<rparr>,
            \<lparr>item_id = 2, item_purchase_order = 2, item_material_id = 2,
             item_quantity = 10, received_quantity = 0, item_unit = ''kg''\<rparr>,
            \<lparr>item_id = 3, item_purchase_order = 2, item_material_id = 3,
             item_quantity = 10, received_quantity = 0, item_unit = ''pieces''\<rparr>]\<rparr>"



section \<open>Verification\<close>

subsection \<open>Fresh ids, lookups and rounding\<close>

lemma fold_max_bounds:
  "(a::nat) \<le> fold max ids a \<and> (\<forall>x\<in>set ids. x \<le> fold max ids a)"
proof (induction ids arbitrary: a)
  case Nil
  show ?case by simp
next
  case (Cons i ids)
  have "max i a \<le> fold max ids (max i a)" using Cons.IH by blast
  moreover have "\<forall>x\<in>set ids. x \<le> fold max ids (max i a)" using Cons.IH by blast
  ultimately show ?case by auto
qed

lemma new_id_greater: "x \<in> set ids \<Longrightarrow> x < new_id ids"
  using fold_max_bounds [of 0 ids] by (auto simp: new_id_def)

lemma new_id_fresh: "new_id ids \<notin> set ids"
  using new_id_greater by blast

lemma find_append_last:
  "\<forall>x\<in>set xs. \<not> P x \<Longrightarrow> P y \<Longrightarrow> find P (xs @ [y]) = Some y"
  by (induction xs) auto




text \<open>
  A value that already has three decimal places, as every stored \<open>qty_per_unit\<close> times a
  whole quantity has, is left as it is: on such values the rounding mode plays no part.
\<close>

lemma quantize3_exact: "quantize3 (of_int k / 1000) = of_int k / 1000"
  by (simp add: quantize3_def round_half_even_def)

lemma quantize3_decimal3: "decimal3 x \<Longrightarrow> quantize3 x = x"
proof -
  assume "decimal3 x"
  then have "x = of_int \<lfloor>x * 1000\<rfloor> / 1000" by (simp add: decimal3_def)
  then show ?thesis using quantize3_exact [of "\<lfloor>x * 1000\<rfloor>"] by simp
qed

lemma decimal3_iff: "decimal3 x \<longleftrightarrow> (\<exists>k. x = of_int k / 1000)"
proof
  assume "decimal3 x"
  then have "x = of_int \<lfloor>x * 1000\<rfloor> / 1000" by (simp add: decimal3_def)
  then show "\<exists>k. x = of_int k / 1000" ..
next
  assume "\<exists>k. x = of_int k / 1000"
  then show "decimal3 x" by (auto simp: decimal3_def)
qed

lemma decimal3_add: "decimal3 x \<Longrightarrow> decimal3 y \<Longrightarrow> decimal3 (x + y)"
proof -
  assume "decimal3 x" and "decimal3 y"
  then obtain k l where "x = of_int k / 1000" and "y = of_int l / 1000"
    by (auto simp: decimal3_iff)
  then have "x + y = of_int (k + l) / 1000" by simp
  then show ?thesis unfolding decimal3_iff ..
qed


lemma decimal3_quantize3: "decimal3 (quantize3 x)"
  by (simp add: decimal3_def quantize3_def)

lemma quantize3_idem: "quantize3 (quantize3 x) = quantize3 x"
  by (rule quantize3_decimal3) (rule decimal3_quantize3)

lemma quantize3_of_int: "quantize3 (of_int q) = of_int q"
  by (simp add: quantize3_def round_half_even_def)


subsection \<open>Columns\<close>


lemma db_decimal_quantize3:
  "\<bar>quantize3 x\<bar> < 1000000000 \<Longrightarrow> db_decimal (quantize3 x) = Inr (quantize3 x)"
  by (simp add: db_decimal_def quantize3_idem)

lemma db_decimal_Inr_D:
  "db_decimal x = Inr y \<Longrightarrow> y = quantize3 x \<and> \<bar>quantize3 x\<bar> < 1000000000"
  by (auto simp: db_decimal_def Let_def split: if_splits)

lemma insert_production_order_Inr:
  assumes "0 \<le> order_quantity order" and "order_quantity order < 1000000000"
    and "planned_qty order = quantize3 (of_int (order_quantity order))"
  shows "insert_production_order order s =
           Inr (s\<lparr>production_orders := production_orders s @ [order]\<rparr>)"
proof -
  have "\<bar>quantize3 (of_int (order_quantity order) :: rat)\<bar> < 1000000000"
    using assms(1,2) by (simp add: quantize3_of_int)
  then have "db_decimal (planned_qty order) = Inr (planned_qty order)"
    unfolding assms(3) by (rule db_decimal_quantize3)
  moreover have "db_positive_integer (order_quantity order) = Inr (order_quantity order)"
    using assms(1,2) by (simp add: db_positive_integer_def)
  ultimately show ?thesis by (simp add: insert_production_order_def)
qed

lemma insert_production_order_Inr_D:
  assumes "insert_production_order order s = Inr s'"
    and "planned_qty order = quantize3 (of_int (order_quantity order))"
  shows "0 \<le> order_quantity order \<and> order_quantity order < 1000000000"
proof -
  from assms(1) obtain n y where n: "db_positive_integer (order_quantity order) = Inr n"
    and y: "db_decimal (planned_qty order) = Inr y"
    by (auto simp: insert_production_order_def split: sum.splits)
  from n have "0 \<le> order_quantity order"
    by (simp add: db_positive_integer_def split: if_splits)
  moreover from db_decimal_Inr_D [OF y] have "\<bar>of_int (order_quantity order) :: rat\<bar> < 1000000000"
    by (simp add: assms(2) quantize3_idem quantize3_of_int)
  then have "order_quantity order < 1000000000" by linarith
  ultimately show ?thesis by simp
qed


subsection \<open>The loops of the production operations\<close>

lemma check_requirements_Inr:
  "\<forall>item\<in>set bom. mats (bom_material_id item) \<noteq> None \<Longrightarrow>
   check_requirements mats q bom =
     Inr (map (\<lambda>item. Shortage (rm_name (the (mats (bom_material_id item))))
                       (quantize3 (qty_per_unit item * of_int q))
                       (rm_unit (the (mats (bom_material_id item))))
                       (current_stock (the (mats (bom_material_id item)))))
            (filter (\<lambda>item. current_stock (the (mats (bom_material_id item)))
                              < quantize3 (qty_per_unit item * of_int q)) bom),
          map (\<lambda>item. (item, quantize3 (qty_per_unit item * of_int q))) bom)"
  by (induction bom) (auto simp: Let_def)

lemma check_requirements_KeyError:
  "\<exists>item\<in>set bom. mats (bom_material_id item) = None \<Longrightarrow>
   check_requirements mats q bom = Inl KeyError"
proof (induction bom)
  case Nil
  then show ?case by simp
next
  case (Cons item bom)
  show ?case
  proof (cases "mats (bom_material_id item)")
    case None
    then show ?thesis by simp
  next
    case (Some material)
    with Cons.prems have "\<exists>item\<in>set bom. mats (bom_material_id item) = None" by auto
    then have "check_requirements mats q bom = Inl KeyError" by (rule Cons.IH)
    with Some show ?thesis by (simp add: Let_def)
  qed
qed

lemma consume_requirements_Inr:
  "\<forall>(item, r)\<in>set reqs. raw_materials s (bom_material_id item) \<noteq> None \<Longrightarrow>
   \<forall>(item, r)\<in>set reqs. db_decimal r = Inr r \<Longrightarrow>
   consume_requirements order u reqs s =
     Inr (s\<lparr>raw_materials := (\<lambda>m. map_option
                (\<lambda>material. material\<lparr>current_stock := current_stock material -
                    sum_list (map snd (filter (\<lambda>(item, r). bom_material_id item = m) reqs))\<rparr>)
                (raw_materials s m)),
            consumptions := consumptions s @
              map (\<lambda>(item, r). \<lparr>pc_production_order = order_id order,
                                 pc_material_id = bom_material_id item,
                                 required_qty = r\<rparr>) reqs,
            ledger := ledger s @
              map (\<lambda>(item, r). \<lparr>le_material = bom_material_id item,
                                 le_txn_type = OUT,
                                 le_quantity = r,
                                 le_unit = rm_unit (the (raw_materials s (bom_material_id item))),
                                 le_reason = ConsumedByProductionOrder (order_id order),
                                 le_reference_type = ''production_order'',
                                 le_reference_id = order_id order,
                                 le_created_by = u\<rparr>) reqs\<rparr>)"
proof (induction reqs arbitrary: s)
  case Nil
  have "(\<lambda>m. map_option (\<lambda>material. material\<lparr>current_stock := current_stock material - 0\<rparr>)
           (raw_materials s m)) = raw_materials s"
    by (auto simp: fun_eq_iff option.map_ident)
  then show ?case by simp
next
  case (Cons a reqs)
  obtain item r where a: "a = (item, r)" by (cases a)
  from Cons.prems a obtain material where mat: "raw_materials s (bom_material_id item) = Some material"
    by auto
  from Cons.prems(2) a have fit: "db_decimal r = Inr r" by simp
  have fits: "\<forall>(item, r)\<in>set reqs. db_decimal r = Inr r" using Cons.prems(2) by simp
  let ?k = "bom_material_id item"
  let ?material = "material\<lparr>current_stock := current_stock material - r\<rparr>"
  let ?s1 = "s\<lparr>raw_materials := (raw_materials s)(?k \<mapsto> ?material),
               consumptions := consumptions s @
                    [\<lparr>pc_production_order = order_id order,
                      pc_material_id = ?k,
                      required_qty = r\<rparr>],
               ledger := ledger s @
                    [\<lparr>le_material = ?k,
                      le_txn_type = OUT,
                      le_quantity = r,
                      le_unit = rm_unit ?material,
                      le_reason = ConsumedByProductionOrder (order_id order),
                      le_reference_type = ''production_order'',
                      le_reference_id = order_id order,
                      le_created_by = u\<rparr>]\<rparr>"
  have step: "consume_requirements order u (a # reqs) s = consume_requirements order u reqs ?s1"
    using a mat fit by (simp add: Let_def)
  have prem1: "\<forall>(item, r)\<in>set reqs. raw_materials ?s1 (bom_material_id item) \<noteq> None"
    using Cons.prems(1) by auto
  have unit1: "\<And>k. rm_unit (the (raw_materials ?s1 k)) = rm_unit (the (raw_materials s k))"
    using mat by simp
  have rm: "(\<lambda>m. map_option
                (\<lambda>material. material\<lparr>current_stock := current_stock material -
                    sum_list (map snd (filter (\<lambda>(item, r). bom_material_id item = m) reqs))\<rparr>)
                (raw_materials ?s1 m))
          = (\<lambda>m. map_option
                (\<lambda>material. material\<lparr>current_stock := current_stock material -
                    sum_list (map snd (filter (\<lambda>(item, r). bom_material_id item = m) (a # reqs)))\<rparr>)
                (raw_materials s m))"
    using a mat by (auto simp: fun_eq_iff algebra_simps)
  show ?case
    unfolding step Cons.IH [OF prem1 fits] unit1 rm
    using a mat by simp
qed

lemma consume_requirements_Inr_D:
  "consume_requirements order u reqs s = Inr s' \<Longrightarrow>
   \<forall>(item, r)\<in>set reqs. \<bar>quantize3 r\<bar> < 1000000000"
proof (induction reqs arbitrary: s)
  case Nil
  then show ?case by simp
next
  case (Cons a reqs)
  obtain item r where a: "a = (item, r)" by (cases a)
  from Cons.prems a obtain material y s1
    where y: "db_decimal r = Inr y"
      and rest: "consume_requirements order u reqs s1 = Inr s'"
    by (auto simp: Let_def split: option.splits sum.splits)
  from db_decimal_Inr_D [OF y] Cons.IH [OF rest] a show ?case by simp
qed




lemma stock_Some: "raw_materials s m = Some material \<Longrightarrow> stock s m = current_stock material"
  by (simp add: stock_def)

lemma create_immediate_ok:
  assumes bom: "bom_of s p \<noteq> []"
    and ex: "\<forall>item\<in>set (bom_of s p). raw_materials s (bom_material_id item) \<noteq> None"
    and enough: "\<forall>item\<in>set (bom_of s p).
                   \<not> stock s (bom_material_id item) < quantize3 (qty_per_unit item * of_int q)"
    and q: "0 \<le> q" "q < 1000000000"
    and fits: "\<forall>item\<in>set (bom_of s p).
                 \<bar>quantize3 (qty_per_unit item * of_int q)\<bar> < 1000000000"
  shows "create_production_order_and_deduct_stock p q notes u s =
     (Inr \<lparr>order_id = new_id (map order_id (production_orders s)),
            order_product = p, order_quantity = q,
            planned_qty = quantize3 (of_int q), produced_qty = 0, scrap_qty = 0,
            raw_material_released = True, order_status = PLANNED,
            order_notes = notes, order_created_by = u,
            completed_by = None, completed_at = None\<rparr>,
      s\<lparr>production_orders := production_orders s @
           [\<lparr>order_id = new_id (map order_id (production_orders s)),
             order_product = p, order_quantity = q,
             planned_qty = quantize3 (of_int q), produced_qty = 0, scrap_qty = 0,
             raw_material_released = True, order_status = PLANNED,
             order_notes = notes, order_created_by = u,
             completed_by = None, completed_at = None\<rparr>],
        raw_materials := (\<lambda>m. map_option
           (\<lambda>material. material\<lparr>current_stock := current_stock material -
               sum_list (map (\<lambda>item. quantize3 (qty_per_unit item * of_int q))
                 (filter (\<lambda>item. bom_material_id item = m) (bom_of s p)))\<rparr>)
           (raw_materials s m)),
        consumptions := consumptions s @
           map (\<lambda>item. \<lparr>pc_production_order = new_id (map order_id (production_orders s)),
                         pc_material_id = bom_material_id item,
                         required_qty = quantize3 (qty_per_unit item * of_int q)\<rparr>) (bom_of s p),
        ledger := ledger s @
           map (\<lambda>item. \<lparr>le_material = bom_material_id item,
                         le_txn_type = OUT,
                         le_quantity = quantize3 (qty_per_unit item * of_int q),
                         le_unit = rm_unit (the (raw_materials s (bom_material_id item))),
                         le_reason = ConsumedByProductionOrder (new_id (map order_id (production_orders s))),
                         le_reference_type = ''production_order'',
                         le_reference_id = new_id (map order_id (production_orders s)),
                         le_created_by = u\<rparr>) (bom_of s p)\<rparr>)"
proof -
  let ?req = "\<lambda>item. quantize3 (qty_per_unit item * of_int q)"
  let ?reqs = "map (\<lambda>item. (item, ?req item)) (bom_of s p)"
  have stock_eq: "\<And>item. item \<in> set (bom_of s p) \<Longrightarrow>
      current_stock (the (raw_materials s (bom_material_id item))) = stock s (bom_material_id item)"
    using ex by (auto simp: stock_def)
  have "filter (\<lambda>item. current_stock (the (raw_materials s (bom_material_id item))) < ?req item)
          (bom_of s p) = []"
    using enough stock_eq by (simp add: filter_empty_conv)
  then have chk: "check_requirements (raw_materials s) q (bom_of s p) = Inr ([], ?reqs)"
    using check_requirements_Inr [OF ex, of q] by simp
  have sums: "\<And>m. sum_list (map snd (filter (\<lambda>p. bom_material_id (fst p) = m) ?reqs))
      = sum_list (map ?req (filter (\<lambda>item. bom_material_id item = m) (bom_of s p)))"
    by (simp add: filter_map comp_def)
  have ex': "\<And>s'. raw_materials s' = raw_materials s \<Longrightarrow>
      \<forall>(item, r)\<in>set ?reqs. raw_materials s' (bom_material_id item) \<noteq> None"
    using ex by auto
  have fits': "\<forall>(item, r)\<in>set ?reqs. db_decimal r = Inr r"
    using fits by (auto simp: db_decimal_quantize3)
  show ?thesis
    unfolding create_production_order_and_deduct_stock_def Let_def atomic_def
    using bom chk q
    by (simp add: insert_production_order_Inr consume_requirements_Inr [OF ex' fits'] sums
          comp_def case_prod_unfold)
qed


lemma create_immediate_short:
  assumes bom: "bom_of s p \<noteq> []"
    and ex: "\<forall>item\<in>set (bom_of s p). raw_materials s (bom_material_id item) \<noteq> None"
    and short: "filter (\<lambda>item. stock s (bom_material_id item)
                   < quantize3 (qty_per_unit item * of_int q)) (bom_of s p) \<noteq> []"
  shows "create_production_order_and_deduct_stock p q notes u s =
     (Inl (InsufficientStock
        (map (\<lambda>item. Shortage (material_name s (bom_material_id item))
                         (quantize3 (qty_per_unit item * of_int q))
                         (rm_unit (the (raw_materials s (bom_material_id item))))
                         (stock s (bom_material_id item)))
           (filter (\<lambda>item. stock s (bom_material_id item)
                   < quantize3 (qty_per_unit item * of_int q)) (bom_of s p)))), s)"
proof -
  let ?req = "\<lambda>item. quantize3 (qty_per_unit item * of_int q)"
  have stock_eq: "\<And>item. item \<in> set (bom_of s p) \<Longrightarrow>
      current_stock (the (raw_materials s (bom_material_id item))) = stock s (bom_material_id item)"
    using ex by (auto simp: stock_def)
  have name_eq: "\<And>item. item \<in> set (bom_of s p) \<Longrightarrow>
      rm_name (the (raw_materials s (bom_material_id item))) = material_name s (bom_material_id item)"
    using ex by (auto simp: material_name_def)
  have f: "filter (\<lambda>item. current_stock (the (raw_materials s (bom_material_id item))) < ?req item)
             (bom_of s p)
         = filter (\<lambda>item. stock s (bom_material_id item) < ?req item) (bom_of s p)"
    by (rule filter_cong) (simp_all add: stock_eq)
  have m: "map (\<lambda>item. Shortage (rm_name (the (raw_materials s (bom_material_id item))))
                       (?req item)
                       (rm_unit (the (raw_materials s (bom_material_id item))))
                       (current_stock (the (raw_materials s (bom_material_id item)))))
            (filter (\<lambda>item. stock s (bom_material_id item) < ?req item) (bom_of s p))
      = map (\<lambda>item. Shortage (material_name s (bom_material_id item))
                       (?req item)
                       (rm_unit (the (raw_materials s (bom_material_id item))))
                       (stock s (bom_material_id item)))
            (filter (\<lambda>item. stock s (bom_material_id item) < ?req item) (bom_of s p))"
    by (rule map_cong) (simp_all add: stock_eq name_eq)
  have chk: "check_requirements (raw_materials s) q (bom_of s p) =
      Inr (map (\<lambda>item. Shortage (material_name s (bom_material_id item))
                       (?req item)
                       (rm_unit (the (raw_materials s (bom_material_id item))))
                       (stock s (bom_material_id item)))
            (filter (\<lambda>item. stock s (bom_material_id item) < ?req item) (bom_of s p)),
           map (\<lambda>item. (item, ?req item)) (bom_of s p))"
    unfolding check_requirements_Inr [OF ex, of q] f m ..
  show ?thesis
    unfolding create_production_order_and_deduct_stock_def Let_def atomic_def
    using bom short by (simp add: chk)
qed



lemma revert_consumptions_eq:
  "revert_consumptions pk u cs s =
     s\<lparr>raw_materials := (\<lambda>m. map_option
                (\<lambda>material. material\<lparr>current_stock := current_stock material +
                    sum_list (map required_qty (filter (\<lambda>c. pc_material_id c = m) cs))\<rparr>)
                (raw_materials s m)),
        ledger := ledger s @
              map (\<lambda>c. \<lparr>le_material = pc_material_id c,
                         le_txn_type = IN,
                         le_quantity = required_qty c,
                         le_unit = rm_unit (the (raw_materials s (pc_material_id c))),
                         le_reason = RevertedByCancellingProductionOrder pk,
                         le_reference_type = ''production_order'',
                         le_reference_id = pk,
                         le_created_by = u\<rparr>)
                (filter (\<lambda>c. raw_materials s (pc_material_id c) \<noteq> None) cs)\<rparr>"
proof (induction cs arbitrary: s)
  case Nil
  have "(\<lambda>m. map_option (\<lambda>material. material\<lparr>current_stock := current_stock material + 0\<rparr>)
           (raw_materials s m)) = raw_materials s"
    by (auto simp: fun_eq_iff option.map_ident)
  then show ?case by simp
next
  case (Cons c cs)
  show ?case
  proof (cases "raw_materials s (pc_material_id c)")
    case None
    have rm: "(\<lambda>m. map_option
                (\<lambda>material. material\<lparr>current_stock := current_stock material +
                    sum_list (map required_qty (filter (\<lambda>c. pc_material_id c = m) (c # cs)))\<rparr>)
                (raw_materials s m))
          = (\<lambda>m. map_option
                (\<lambda>material. material\<lparr>current_stock := current_stock material +
                    sum_list (map required_qty (filter (\<lambda>c. pc_material_id c = m) cs))\<rparr>)
                (raw_materials s m))"
      using None by (auto simp: fun_eq_iff)
    show ?thesis
      unfolding rm using None by (simp add: Cons.IH)
  next
    case (Some material)
    let ?k = "pc_material_id c"
    let ?material = "material\<lparr>current_stock := current_stock material + required_qty c\<rparr>"
    let ?s1 = "s\<lparr>raw_materials := (raw_materials s)(?k \<mapsto> ?material),
               ledger := ledger s @
                    [\<lparr>le_material = ?k,
                      le_txn_type = IN,
                      le_quantity = required_qty c,
                      le_unit = rm_unit ?material,
                      le_reason = RevertedByCancellingProductionOrder pk,
                      le_reference_type = ''production_order'',
                      le_reference_id = pk,
                      le_created_by = u\<rparr>]\<rparr>"
    have step: "revert_consumptions pk u (c # cs) s = revert_consumptions pk u cs ?s1"
      using Some by (simp add: Let_def)
    have unit1: "\<And>k. rm_unit (the (raw_materials ?s1 k)) = rm_unit (the (raw_materials s k))"
      using Some by simp
    have dom1: "\<And>k. (raw_materials ?s1 k \<noteq> None) = (raw_materials s k \<noteq> None)"
      using Some by simp
    have rm: "(\<lambda>m. map_option
                (\<lambda>material. material\<lparr>current_stock := current_stock material +
                    sum_list (map required_qty (filter (\<lambda>c. pc_material_id c = m) cs))\<rparr>)
                (raw_materials ?s1 m))
          = (\<lambda>m. map_option
                (\<lambda>material. material\<lparr>current_stock := current_stock material +
                    sum_list (map required_qty (filter (\<lambda>c. pc_material_id c = m) (c # cs)))\<rparr>)
                (raw_materials s m))"
      using Some by (auto simp: fun_eq_iff algebra_simps)
    show ?thesis
      unfolding step Cons.IH unit1 dom1 rm
      using Some by simp
  qed
qed



lemma get_new_production_order:
  "order_id order = new_id (map order_id rows) \<Longrightarrow>
   find (\<lambda>row. order_id row = order_id order) (rows @ [order]) = Some order"
proof (rule find_append_last)
  assume "order_id order = new_id (map order_id rows)"
  then show "\<forall>x\<in>set rows. \<not> order_id x = order_id order"
    using new_id_fresh [of "map order_id rows"] by (auto simp: image_iff)
qed simp

lemma consumptions_of_new_order:
  assumes "consumptions_have_orders s"
  shows "filter (\<lambda>c. pc_production_order c = new_id (map order_id (production_orders s)))
           (consumptions s) = []"
  using assms new_id_fresh [of "map order_id (production_orders s)"]
  by (fastforce simp: consumptions_have_orders_def list_all_iff filter_empty_conv image_iff)



lemma cancel_released_ok:
  assumes "get_production_order s pk = Some order"
    and "order_status order \<noteq> CANCELLED" and "order_status order \<noteq> COMPLETED"
    and "raw_material_released order"
  shows "cancel_production_order pk u s =
     (Inr (order\<lparr>order_status := CANCELLED\<rparr>),
      save_production_order (order\<lparr>order_status := CANCELLED\<rparr>)
        (revert_consumptions pk u (consumptions_of s pk) s))"
  unfolding cancel_production_order_def atomic_def Let_def
  using assms by simp


text \<open>The definitions that evaluate the example data.\<close>

lemmas ev = Let_def bom_of_def db0_def canvas_def thread_def zipper_def stock_def
  material_name_def quantize3_def round_half_even_def decimal3_def
  db_decimal_def db_positive_integer_def insert_production_order_def


lemmas ev_production = create_production_order_with_rm_request_def
  release_raw_materials_for_production_order_def cancel_production_order_def
  get_production_order_def save_production_order_def consumptions_of_def
  atomic_def new_id_def db_no_stock_def


text \<open>
  What the columns do to values they cannot hold: a delta of four decimal places leaves
  the balance of three places and a ledger quantity of zero; a negative order quantity
  is refused and nothing is written.
\<close>

lemma quantize3_examples:
  "quantize3 (100 + 4 / 10000) = 100" "quantize3 \<bar>4 / 10000\<bar> = 0"
  by code_simp+

lemma adjust_stock_fourth_decimal:
  "stock (snd (adjust_stock 1 (4 / 10000) ''count'' 7 db0)) 1 = 100 \<and>
   map le_quantity (ledger (snd (adjust_stock 1 (4 / 10000) ''count'' 7 db0))) = [0]"
  using quantize3_examples
  by (simp add: Let_def db0_def canvas_def stock_def db_decimal_def adjust_stock_def atomic_def)

lemma negative_quantity_refused:
  "create_production_order_with_rm_request 1 (- 1) ''run'' 7 db0 = (Inl DatabaseError, db0)"
  "create_production_order_and_deduct_stock 1 (- 1) ''run'' 7 db0 = (Inl DatabaseError, db0)"
  by (simp_all add: ev ev_production create_production_order_and_deduct_stock_def)


lemma no_bom_immediate:
  "bom_of s p = [] \<Longrightarrow> create_production_order_and_deduct_stock p q notes u s = (Inl NoBOM, s)"
  by (simp add: create_production_order_and_deduct_stock_def)



lemma find_map_update:
  "find (\<lambda>row. f row = k) rows = Some row0 \<Longrightarrow> f new = k \<Longrightarrow>
   find (\<lambda>row. f row = k) (map (\<lambda>row. if f row = k then new else row) rows) = Some new"
  by (induction rows) (auto split: if_splits)



lemma create_immediate_KeyError:
  assumes "bom_of s p \<noteq> []"
    and "\<exists>item\<in>set (bom_of s p). raw_materials s (bom_material_id item) = None"
  shows "create_production_order_and_deduct_stock p q notes u s = (Inl KeyError, s)"
  unfolding create_production_order_and_deduct_stock_def Let_def atomic_def
  using assms(1) check_requirements_KeyError [OF assms(2), of q] by simp

lemma check_requirements_enough:
  assumes ex: "\<forall>item\<in>set (bom_of s p). raw_materials s (bom_material_id item) \<noteq> None"
    and enough: "\<forall>item\<in>set (bom_of s p).
                   \<not> stock s (bom_material_id item) < quantize3 (qty_per_unit item * of_int q)"
  shows "check_requirements (raw_materials s) q (bom_of s p) =
           Inr ([], map (\<lambda>item. (item, quantize3 (qty_per_unit item * of_int q))) (bom_of s p))"
proof -
  let ?req = "\<lambda>item. quantize3 (qty_per_unit item * of_int q)"
  have stock_eq: "\<And>item. item \<in> set (bom_of s p) \<Longrightarrow>
      current_stock (the (raw_materials s (bom_material_id item))) = stock s (bom_material_id item)"
    using ex by (auto simp: stock_def)
  have "filter (\<lambda>item. current_stock (the (raw_materials s (bom_material_id item))) < ?req item)
          (bom_of s p) = []"
    using enough stock_eq by (simp add: filter_empty_conv)
  then show ?thesis
    using check_requirements_Inr [OF ex, of q] by simp
qed

lemma create_immediate_Inr_D:
  assumes "create_production_order_and_deduct_stock p q notes u s = (Inr order, s1)"
  shows "bom_of s p \<noteq> []"
    and "\<forall>item\<in>set (bom_of s p). raw_materials s (bom_material_id item) \<noteq> None"
    and "\<forall>item\<in>set (bom_of s p).
           \<not> stock s (bom_material_id item) < quantize3 (qty_per_unit item * of_int q)"
    and "0 \<le> q" and "q < 1000000000"
    and "\<forall>item\<in>set (bom_of s p). \<bar>quantize3 (qty_per_unit item * of_int q)\<bar> < 1000000000"
proof -
  let ?order = "\<lparr>order_id = new_id (map order_id (production_orders s)),
            order_product = p, order_quantity = q,
            planned_qty = quantize3 (of_int q), produced_qty = 0, scrap_qty = 0,
            raw_material_released = True, order_status = PLANNED,
            order_notes = notes, order_created_by = u,
            completed_by = None, completed_at = None\<rparr>"
  let ?reqs = "map (\<lambda>item. (item, quantize3 (qty_per_unit item * of_int q))) (bom_of s p)"
  show bom: "bom_of s p \<noteq> []"
    using assms no_bom_immediate [of s p q "notes" u] by auto
  show ex: "\<forall>item\<in>set (bom_of s p). raw_materials s (bom_material_id item) \<noteq> None"
    using assms create_immediate_KeyError [OF bom, of q "notes" u] by fastforce
  show enough: "\<forall>item\<in>set (bom_of s p).
           \<not> stock s (bom_material_id item) < quantize3 (qty_per_unit item * of_int q)"
  proof (rule ccontr)
    assume "\<not> ?thesis"
    then have "filter (\<lambda>item. stock s (bom_material_id item)
                   < quantize3 (qty_per_unit item * of_int q)) (bom_of s p) \<noteq> []"
      by (auto simp: filter_empty_conv)
    from create_immediate_short [OF bom ex this] assms show False by simp
  qed
  from assms bom check_requirements_enough [OF ex enough]
  obtain sa sb where ins: "insert_production_order ?order s = Inr sa"
    and con: "consume_requirements ?order u ?reqs sa = Inr sb"
    by (auto simp: create_production_order_and_deduct_stock_def Let_def atomic_def
          split: sum.splits)
  from insert_production_order_Inr_D [OF ins] show "0 \<le> q" and "q < 1000000000"
    by simp_all
  from consume_requirements_Inr_D [OF con]
  show "\<forall>item\<in>set (bom_of s p). \<bar>quantize3 (qty_per_unit item * of_int q)\<bar> < 1000000000"
    by (auto simp: quantize3_idem)
qed

lemma ledger_delta_append:
  "ledger_delta m (xs @ ys) = ledger_delta m xs + ledger_delta m ys"
  by (simp add: ledger_delta_def)

lemma ledger_delta_out_in:
  assumes "\<And>x. le_material (out x) = f x \<and> le_txn_type (out x) = OUT \<and> le_quantity (out x) = g x"
    and "\<And>x. le_material (inn x) = f x \<and> le_txn_type (inn x) = IN \<and> le_quantity (inn x) = g x"
  shows "ledger_delta m (map out xs) + ledger_delta m (map inn xs) = 0"
  using assms by (induction xs) (auto simp: ledger_delta_def signed_quantity_def)

subsection \<open>Purchase orders: lookups\<close>

lemma get_purchase_order_id:
  "get_purchase_order s pk = Some order \<Longrightarrow> po_id order = pk"
  by (auto simp: get_purchase_order_def find_Some_iff)

lemma get_saved_purchase_order:
  "get_purchase_order s (po_id order) = Some order0 \<Longrightarrow>
   get_purchase_order (save_purchase_order order s) (po_id order) = Some order"
  unfolding get_purchase_order_def save_purchase_order_def
  using find_map_update [of po_id "po_id order" "purchase_orders s" order0 order]
  by simp

lemmas ev_purchasing = db_po_def receive_purchase_order_def receive_quantities_def
  cancel_purchase_order_def reopen_purchase_order_def get_purchase_order_def
  save_purchase_order_def items_of_def save_item_def derive_status_def
  pending_quantity_def quantity_for_def atomic_def


subsection \<open>The loops of \<open>receive_purchase_order\<close>\<close>

lemma find_by_key:
  "distinct (map f xs) \<Longrightarrow> x \<in> set xs \<Longrightarrow> find (\<lambda>y. f y = f x) xs = Some x"
proof (induction xs)
  case Nil
  then show ?case by simp
next
  case (Cons a xs)
  show ?case
  proof (cases "a = x")
    case True
    then show ?thesis by simp
  next
    case False
    with Cons.prems have "x \<in> set xs" "f a \<noteq> f x" by (auto simp: image_iff)
    with Cons show ?thesis by simp
  qed
qed

lemma check_pending_exceeds:
  assumes "distinct (map item_id items)"
    and "\<forall>(k, q)\<in>set qs. k \<in> set (map item_id items)"
    and "\<exists>(k, q)\<in>set qs. \<exists>item\<in>set items. item_id item = k \<and> pending_quantity item < q"
  shows "\<exists>name pending. check_pending s items qs = Inl (ExceedsPending name pending)"
  using assms(2,3)
proof (induction qs)
  case Nil
  then show ?case by simp
next
  case (Cons a qs)
  obtain k q where a: "a = (k, q)" by (cases a)
  from Cons.prems(1) a obtain item where item: "item \<in> set items" "item_id item = k"
    by auto
  have found: "find (\<lambda>i. item_id i = k) items = Some item"
    using find_by_key [OF assms(1) item(1)] item(2) by simp
  show ?case
  proof (cases "pending_quantity item < q")
    case True
    then show ?thesis using a found by simp
  next
    case False
    have "\<exists>(k, q)\<in>set qs. \<exists>item\<in>set items. item_id item = k \<and> pending_quantity item < q"
    proof -
      from Cons.prems(2) obtain k' q' item' where w:
        "(k', q') \<in> set (a # qs)" "item' \<in> set items" "item_id item' = k'"
        "pending_quantity item' < q'"
        by auto
      have "(k', q') \<noteq> a"
      proof
        assume "(k', q') = a"
        with a have e: "k' = k" "q' = q" by simp_all
        have "item' = item"
          using assms(1) w(2,3) item e(1) by (auto simp: distinct_map inj_on_def)
        with w(4) e(2) False show False by simp
      qed
      with w show ?thesis by auto
    qed
    moreover have "\<forall>(k, q)\<in>set qs. k \<in> set (map item_id items)"
      using Cons.prems(1) by auto
    ultimately have "\<exists>name pending. check_pending s items qs = Inl (ExceedsPending name pending)"
      using Cons.IH by blast
    with False a found show ?thesis by simp
  qed
qed


text \<open>
  The receiving loop on quantities of three decimal places: what a successful run has
  written.
\<close>

lemma decimal3_0: "decimal3 0"
  by (simp add: decimal3_def)

lemma decimal3_diff: "decimal3 x \<Longrightarrow> decimal3 y \<Longrightarrow> decimal3 (x - y)"
proof -
  assume "decimal3 x" and "decimal3 y"
  then obtain k l where "x = of_int k / 1000" and "y = of_int l / 1000"
    by (auto simp: decimal3_iff)
  then have "x - y = of_int (k - l) / 1000" by (simp add: diff_divide_distrib)
  then show ?thesis unfolding decimal3_iff ..
qed

lemma decimal3_quantity_for:
  "\<forall>(k, q)\<in>set qs. decimal3 q \<Longrightarrow> decimal3 (quantity_for qs item)"
proof (cases "map_of qs (item_id item)")
  case None
  then show ?thesis by (simp add: quantity_for_def decimal3_0)
next
  case (Some q)
  assume a: "\<forall>(k, q)\<in>set qs. decimal3 q"
  from Some have "(item_id item, q) \<in> set qs" by (rule map_of_SomeD)
  with a have "decimal3 q" by auto
  with Some show ?thesis by (simp add: quantity_for_def)
qed

lemma saved_items_of:
  assumes ids: "distinct (map item_id (purchase_order_items s))"
    and keep: "\<And>i. item_purchase_order (f i) = item_purchase_order i"
  shows "filter (\<lambda>item. item_purchase_order item = pk)
       (map (\<lambda>row. case find (\<lambda>i. item_id i = item_id row) (items_of s pk) of
                     Some i \<Rightarrow> f i
                   | None \<Rightarrow> row)
          (purchase_order_items s))
     = map f (items_of s pk)"
proof -
  let ?items = "items_of s pk"
  have di: "distinct (map item_id ?items)"
    using ids by (simp add: items_of_def distinct_map_filter)
  have own: "find (\<lambda>i. item_id i = item_id row) ?items = Some row"
    if "row \<in> set (purchase_order_items s)" "item_purchase_order row = pk" for row
    using that by (intro find_by_key [OF di]) (simp add: items_of_def)
  have other: "find (\<lambda>i. item_id i = item_id row) ?items = None"
    if "row \<in> set (purchase_order_items s)" "item_purchase_order row \<noteq> pk" for row
  proof (rule ccontr)
    assume "find (\<lambda>i. item_id i = item_id row) ?items \<noteq> None"
    then obtain i where "i \<in> set ?items" "item_id i = item_id row"
      by (auto simp: find_None_iff)
    then have "i \<in> set (purchase_order_items s)" "item_purchase_order i = pk"
      "item_id i = item_id row"
      by (simp_all add: items_of_def)
    with that ids have "i = row"
      by (meson distinct_map inj_onD)
    with \<open>item_purchase_order i = pk\<close> that(2) show False by simp
  qed
  have m: "map (\<lambda>row. case find (\<lambda>i. item_id i = item_id row) ?items of
                     Some i \<Rightarrow> f i
                   | None \<Rightarrow> row)
          (purchase_order_items s)
      = map (\<lambda>row. if item_purchase_order row = pk then f row else row) (purchase_order_items s)"
    by (rule map_cong [OF refl]) (simp add: own other)
  have general: "filter (\<lambda>item. item_purchase_order item = pk)
        (map (\<lambda>row. if item_purchase_order row = pk then f row else row) xs)
      = map f (filter (\<lambda>item. item_purchase_order item = pk) xs)" for xs
    by (induction xs) (simp_all add: keep)
  show ?thesis
    unfolding m general by (simp add: items_of_def)
qed

lemma db_decimal_stored:
  "db_decimal x = Inr y \<Longrightarrow> decimal3 x \<Longrightarrow> db_decimal x = Inr x"
  using db_decimal_Inr_D [of x y] by (simp add: quantize3_decimal3)

lemma receive_items_Inr_D:
  assumes "receive_items pk user qs materials items s = Inr (items', s')"
    and "distinct (map item_id items)"
    and "\<forall>item\<in>set items. materials (item_material_id item)
           = raw_materials s (item_material_id item)"
    and "\<forall>item\<in>set items. decimal3 (received_quantity item) \<and> decimal3 (quantity_for qs item)"
    and "\<forall>item\<in>set items. \<forall>material.
           raw_materials s (item_material_id item) = Some material \<longrightarrow>
           decimal3 (current_stock material)"
  shows "items' = map (\<lambda>i. if 0 < quantity_for qs i
                    then i\<lparr>received_quantity := received_quantity i + quantity_for qs i\<rparr>
                    else i) items \<and>
     s' = s\<lparr>raw_materials := (\<lambda>m. map_option
                (\<lambda>material. material\<lparr>current_stock := current_stock material +
                    sum_list (map (quantity_for qs)
                      (filter (\<lambda>i. item_material_id i = m \<and> 0 < quantity_for qs i) items))\<rparr>)
                (raw_materials s m)),
            purchase_order_items :=
              map (\<lambda>row. case find (\<lambda>i. item_id i = item_id row) items of
                            Some i \<Rightarrow>
                              if 0 < quantity_for qs i
                              then i\<lparr>received_quantity := received_quantity i + quantity_for qs i\<rparr>
                              else row
                          | None \<Rightarrow> row)
                (purchase_order_items s),
            ledger := ledger s @
              map (\<lambda>i. \<lparr>le_material = item_material_id i,
                         le_txn_type = IN,
                         le_quantity = quantity_for qs i,
                         le_unit = item_unit i,
                         le_reason = ReceivedAgainstPurchaseOrder pk
                                       (material_name s (item_material_id i)),
                         le_reference_type = ''purchase_order'',
                         le_reference_id = pk,
                         le_created_by = user\<rparr>)
                (filter (\<lambda>i. 0 < quantity_for qs i) items)\<rparr>"
  using assms
proof (induction items arbitrary: s materials items')
  case Nil
  have "(\<lambda>m. map_option (\<lambda>material. material\<lparr>current_stock := current_stock material + 0\<rparr>)
           (raw_materials s m)) = raw_materials s"
    by (auto simp: fun_eq_iff option.map_ident)
  with Nil.prems(1) show ?case by simp
next
  case (Cons item items)
  let ?upd = "\<lambda>i. i\<lparr>received_quantity := received_quantity i + quantity_for qs i\<rparr>"
  let ?g = "\<lambda>its row. case find (\<lambda>i. item_id i = item_id row) its of
                            Some i \<Rightarrow> if 0 < quantity_for qs i then ?upd i else row
                          | None \<Rightarrow> row"
  have dist: "distinct (map item_id items)" using Cons.prems(2) by simp
  have fresh: "item_id item \<notin> set (map item_id items)" using Cons.prems(2) by simp
  have d3: "\<forall>item\<in>set items. decimal3 (received_quantity item) \<and> decimal3 (quantity_for qs item)"
    using Cons.prems(4) by simp
  show ?case
  proof (cases "0 < quantity_for qs item")
    case False
    from Cons.prems(1) False obtain items1
      where rest: "receive_items pk user qs materials items s = Inr (items1, s')"
        and i': "items' = item # items1"
      by (auto simp: Let_def split: sum.splits)
    have inv: "\<forall>item\<in>set items. materials (item_material_id item)
           = raw_materials s (item_material_id item)"
      using Cons.prems(3) by simp
    have st: "\<forall>item\<in>set items. \<forall>material.
           raw_materials s (item_material_id item) = Some material \<longrightarrow>
           decimal3 (current_stock material)"
      using Cons.prems(5) by simp
    have tab: "map (?g (item # items)) (purchase_order_items s)
             = map (?g items) (purchase_order_items s)"
    proof (rule map_cong [OF refl])
      fix row
      show "?g (item # items) row = ?g items row"
      proof (cases "item_id item = item_id row")
        case True
        then have "find (\<lambda>i. item_id i = item_id row) items = None"
          using fresh by (fastforce simp: find_None_iff image_iff)
        with True False show ?thesis by simp
      next
        case False
        then show ?thesis by simp
      qed
    qed
    note ih = Cons.IH [OF rest dist inv d3 st]
    show ?thesis
      unfolding tab i'
      using False ih by simp
  next
    case True
    let ?k = "item_material_id item"
    let ?q = "quantity_for qs item"
    from Cons.prems(1) True obtain material where mat: "materials ?k = Some material"
      by (auto simp: Let_def split: option.splits)
    from Cons.prems(3) mat have row: "raw_materials s ?k = Some material" by simp
    from Cons.prems(1) True mat obtain y1 y2 y3
      where "db_decimal (current_stock material + ?q) = Inr y1"
        and "db_decimal (received_quantity item + ?q) = Inr y2"
        and "db_decimal ?q = Inr y3"
      by (auto simp: Let_def split: sum.splits)
    moreover have "decimal3 (current_stock material + ?q)"
      using Cons.prems(4,5) row by (simp add: decimal3_add)
    moreover have "decimal3 (received_quantity item + ?q)" "decimal3 ?q"
      using Cons.prems(4) by (simp_all add: decimal3_add)
    ultimately have fit: "db_decimal (current_stock material + ?q)
          = Inr (current_stock material + ?q)"
        "db_decimal (received_quantity item + ?q) = Inr (received_quantity item + ?q)"
        "db_decimal ?q = Inr ?q"
      by (blast intro: db_decimal_stored)+
    let ?material = "material\<lparr>current_stock := current_stock material + ?q\<rparr>"
    let ?materials = "materials(?k \<mapsto> ?material)"
    let ?sa = "s\<lparr>raw_materials := (raw_materials s)(?k \<mapsto> ?material)\<rparr>"
    let ?sb = "save_item (?upd item) ?sa"
    let ?s1 = "?sb\<lparr>ledger := ledger ?sb @
                       [\<lparr>le_material = ?k,
                         le_txn_type = IN,
                         le_quantity = ?q,
                         le_unit = item_unit (?upd item),
                         le_reason = ReceivedAgainstPurchaseOrder pk (material_name ?sb ?k),
                         le_reference_type = ''purchase_order'',
                         le_reference_id = pk,
                         le_created_by = user\<rparr>]\<rparr>"
    have step: "receive_items pk user qs materials (item # items) s =
        (case receive_items pk user qs ?materials items ?s1 of
           Inl e \<Rightarrow> Inl e
         | Inr (items', s') \<Rightarrow> Inr (?upd item # items', s'))"
      using True mat fit by (simp add: Let_def)
    from Cons.prems(1) obtain items1
      where rest: "receive_items pk user qs ?materials items ?s1 = Inr (items1, s')"
        and i': "items' = ?upd item # items1"
      unfolding step by (auto split: sum.splits)
    have inv: "\<forall>i\<in>set items. ?materials (item_material_id i)
           = raw_materials ?s1 (item_material_id i)"
      using Cons.prems(3) by (simp add: save_item_def)
    have st: "\<forall>i\<in>set items. \<forall>material.
           raw_materials ?s1 (item_material_id i) = Some material \<longrightarrow>
           decimal3 (current_stock material)"
      using Cons.prems(4,5) row by (auto simp: save_item_def decimal3_add)
    note ih = Cons.IH [OF rest dist inv d3 st]
    have names: "\<And>k. material_name ?s1 k = material_name s k"
      using row by (simp add: material_name_def save_item_def)
    have nameb: "material_name ?sb ?k = material_name s ?k"
      using row by (simp add: material_name_def save_item_def)
    have rm: "(\<lambda>m. map_option
                (\<lambda>material. material\<lparr>current_stock := current_stock material +
                    sum_list (map (quantity_for qs)
                      (filter (\<lambda>i. item_material_id i = m \<and> 0 < quantity_for qs i) items))\<rparr>)
                (raw_materials ?s1 m))
          = (\<lambda>m. map_option
                (\<lambda>material. material\<lparr>current_stock := current_stock material +
                    sum_list (map (quantity_for qs)
                      (filter (\<lambda>i. item_material_id i = m \<and> 0 < quantity_for qs i)
                         (item # items)))\<rparr>)
                (raw_materials s m))"
      using True row by (auto simp: fun_eq_iff save_item_def algebra_simps)
    have tab: "map (?g items) (purchase_order_items ?s1)
             = map (?g (item # items)) (purchase_order_items s)"
    proof -
      have "purchase_order_items ?s1 =
          map (\<lambda>i. if item_id i = item_id item then ?upd item else i) (purchase_order_items s)"
        by (simp add: save_item_def)
      moreover have "?g items (if item_id row = item_id item then ?upd item else row)
            = ?g (item # items) row" for row
      proof (cases "item_id row = item_id item")
        case same: True
        have "find (\<lambda>i. item_id i = item_id item) items = None"
          using fresh by (fastforce simp: find_None_iff image_iff)
        with same True show ?thesis by simp
      next
        case False
        then have "item_id item \<noteq> item_id row" by simp
        with False show ?thesis by simp
      qed
      ultimately show ?thesis by (simp add: comp_def)
    qed
    show ?thesis
      unfolding i' conjunct1 [OF ih] conjunct2 [OF ih] names rm tab
      using True row by (simp add: save_item_def material_name_def)
  qed
qed


subsection \<open>Stock adjustment\<close>



subsection \<open>Immediate creation of a production order\<close>




subsection \<open>Creation with a raw-material request\<close>




subsection \<open>Requirements of a production order\<close>





subsection \<open>Raw-material request and release\<close>





subsection \<open>Cancelling a production order\<close>

text \<open>
  C4. When \<open>create_production_order_and_deduct_stock\<close> succeeds for a product and a
  quantity, cancelling the order it returns succeeds and gives every material row,
  hence every touched balance, exactly its value from before the creation; the
  cancellation writes one \<open>IN\<close> ledger entry per consumption line of the order, with the
  required quantity of that line, so that for every material the net movement in the
  ledger after creation and cancellation is what it was before them.
\<close>

theorem create_then_cancel_restores_stock:
  assumes created: "create_production_order_and_deduct_stock p q notes u s = (Inr order, s1)"
    and fk: "consumptions_have_orders s"
  shows "\<exists>order' s2 es.
     cancel_production_order (order_id order) u' s1 = (Inr order', s2) \<and>
     order_status order' = CANCELLED \<and>
     raw_materials s2 = raw_materials s \<and>
     ledger s2 = ledger s1 @ es \<and>
     map (\<lambda>e. (le_material e, le_txn_type e, le_quantity e)) es =
       map (\<lambda>c. (pc_material_id c, IN, required_qty c)) (consumptions_of s1 (order_id order)) \<and>
     (\<forall>m. ledger_delta m (ledger s2) = ledger_delta m (ledger s))"
proof -
  note d = create_immediate_Inr_D [OF created]
  let ?req = "\<lambda>item. quantize3 (qty_per_unit item * of_int q)"
  let ?k = "new_id (map order_id (production_orders s))"
  let ?order = "\<lparr>order_id = ?k,
            order_product = p, order_quantity = q,
            planned_qty = quantize3 (of_int q), produced_qty = 0, scrap_qty = 0,
            raw_material_released = True, order_status = PLANNED,
            order_notes = notes, order_created_by = u,
            completed_by = None, completed_at = None\<rparr>"
  let ?lines = "map (\<lambda>item. \<lparr>pc_production_order = ?k,
                         pc_material_id = bom_material_id item,
                         required_qty = ?req item\<rparr>) (bom_of s p)"
  let ?out = "\<lambda>item. \<lparr>le_material = bom_material_id item,
                         le_txn_type = OUT,
                         le_quantity = ?req item,
                         le_unit = rm_unit (the (raw_materials s (bom_material_id item))),
                         le_reason = ConsumedByProductionOrder ?k,
                         le_reference_type = ''production_order'',
                         le_reference_id = ?k,
                         le_created_by = u\<rparr>"
  let ?rm1 = "\<lambda>m. map_option
           (\<lambda>material. material\<lparr>current_stock := current_stock material -
               sum_list (map ?req (filter (\<lambda>item. bom_material_id item = m) (bom_of s p)))\<rparr>)
           (raw_materials s m)"
  let ?s1 = "s\<lparr>production_orders := production_orders s @ [?order],
        raw_materials := ?rm1,
        consumptions := consumptions s @ ?lines,
        ledger := ledger s @ map ?out (bom_of s p)\<rparr>"
  have cr: "create_production_order_and_deduct_stock p q notes u s = (Inr ?order, ?s1)"
    by (rule create_immediate_ok [OF d])
  note pr = created [unfolded cr prod.inject sum.inject]
  have eq: "order = ?order" "s1 = ?s1"
    by (rule sym, rule conjunct1 [OF pr]) (rule sym, rule conjunct2 [OF pr])
  have lines: "consumptions_of ?s1 ?k = ?lines"
    unfolding consumptions_of_def
    using consumptions_of_new_order [OF fk] by (simp add: filter_map comp_def)
  have g: "get_production_order ?s1 ?k = Some ?order"
    unfolding get_production_order_def
    using get_new_production_order [of ?order "production_orders s"] by simp
  let ?order' = "?order\<lparr>order_status := CANCELLED\<rparr>"
  let ?inn = "\<lambda>item. \<lparr>le_material = bom_material_id item,
                         le_txn_type = IN,
                         le_quantity = ?req item,
                         le_unit = rm_unit (the (raw_materials s (bom_material_id item))),
                         le_reason = RevertedByCancellingProductionOrder ?k,
                         le_reference_type = ''production_order'',
                         le_reference_id = ?k,
                         le_created_by = u'\<rparr>"
  have all: "filter (\<lambda>c. raw_materials ?s1 (pc_material_id c) \<noteq> None) ?lines = ?lines"
    using d(2) by (auto simp: filter_id_conv)
  have units: "map (\<lambda>c. \<lparr>le_material = pc_material_id c,
                         le_txn_type = IN,
                         le_quantity = required_qty c,
                         le_unit = rm_unit (the (raw_materials ?s1 (pc_material_id c))),
                         le_reason = RevertedByCancellingProductionOrder ?k,
                         le_reference_type = ''production_order'',
                         le_reference_id = ?k,
                         le_created_by = u'\<rparr>) ?lines = map ?inn (bom_of s p)"
    using d(2) by auto
  have restored: "(\<lambda>m. map_option
                (\<lambda>material. material\<lparr>current_stock := current_stock material +
                    sum_list (map required_qty (filter (\<lambda>c. pc_material_id c = m) ?lines))\<rparr>)
                (raw_materials ?s1 m)) = raw_materials s"
  proof
    fix m
    have "sum_list (map required_qty (filter (\<lambda>c. pc_material_id c = m) ?lines))
        = sum_list (map ?req (filter (\<lambda>item. bom_material_id item = m) (bom_of s p)))"
      by (simp add: filter_map comp_def)
    then show "map_option
                (\<lambda>material. material\<lparr>current_stock := current_stock material +
                    sum_list (map required_qty (filter (\<lambda>c. pc_material_id c = m) ?lines))\<rparr>)
                (raw_materials ?s1 m) = raw_materials s m"
      by (cases "raw_materials s m") simp_all
  qed
  let ?s2 = "save_production_order ?order'
        (?s1\<lparr>raw_materials := raw_materials s,
             ledger := ledger ?s1 @ map ?inn (bom_of s p)\<rparr>)"
  have rev: "revert_consumptions ?k u' ?lines ?s1 =
      ?s1\<lparr>raw_materials := raw_materials s, ledger := ledger ?s1 @ map ?inn (bom_of s p)\<rparr>"
    unfolding revert_consumptions_eq all units restored ..
  have can: "cancel_production_order ?k u' ?s1 = (Inr ?order', ?s2)"
    using cancel_released_ok [OF g, of u'] by (simp add: lines rev)
  have delta: "\<forall>m. ledger_delta m (ledger ?s2) = ledger_delta m (ledger s)"
  proof
    fix m
    have "ledger_delta m (map ?out (bom_of s p)) + ledger_delta m (map ?inn (bom_of s p)) = 0"
      by (rule ledger_delta_out_in) simp_all
    then show "ledger_delta m (ledger ?s2) = ledger_delta m (ledger s)"
      by (simp add: save_production_order_def ledger_delta_append)
  qed
  have k: "order_id ?order = ?k" by simp
  show ?thesis
    unfolding eq k lines
    apply (rule exI [of _ ?order'], rule exI [of _ ?s2], rule exI [of _ "map ?inn (bom_of s p)"])
    apply (intro conjI)
         apply (rule can)
        apply simp
       apply (simp add: save_production_order_def)
      apply (simp add: save_production_order_def)
     apply (simp add: comp_def)
    apply (rule delta)
    done
qed


theorem create_then_cancel_restores_stock_witness:
  "\<exists>order s1 order' s2.
     create_production_order_and_deduct_stock 1 3 ''run'' 7 db0 = (Inr order, s1) \<and>
     stock s1 1 = 94 \<and> stock s1 2 = 7 / 2 \<and> stock s1 3 = 1 \<and>
     cancel_production_order (order_id order) 8 s1 = (Inr order', s2) \<and>
     order_status order' = CANCELLED \<and>
     raw_materials s2 = raw_materials db0 \<and>
     map le_txn_type (ledger s2) = [OUT, OUT, OUT, IN, IN, IN] \<and>
     map le_quantity (ledger s2) = [6, 3 / 2, 3, 6, 3 / 2, 3] \<and>
     ledger_delta 1 (ledger s2) = 0 \<and> ledger_delta 2 (ledger s2) = 0 \<and>
     ledger_delta 3 (ledger s2) = 0"
proof -
  let ?r = "create_production_order_and_deduct_stock 1 3 ''run'' 7 db0"
  have c: "?r = (Inr (projr (fst ?r)), snd ?r)"
    by (simp add: ev create_production_order_and_deduct_stock_def atomic_def new_id_def)
  have fk: "consumptions_have_orders db0"
    by (simp add: consumptions_have_orders_def db0_def)
  from create_then_cancel_restores_stock [OF c fk, of 8]
  obtain order' s2 es where r:
    "cancel_production_order (order_id (projr (fst ?r))) 8 (snd ?r) = (Inr order', s2)"
    "order_status order' = CANCELLED"
    "raw_materials s2 = raw_materials db0"
    "ledger s2 = ledger (snd ?r) @ es"
    "map (\<lambda>e. (le_material e, le_txn_type e, le_quantity e)) es =
       map (\<lambda>c. (pc_material_id c, IN, required_qty c))
         (consumptions_of (snd ?r) (order_id (projr (fst ?r))))"
    "\<forall>m. ledger_delta m (ledger s2) = ledger_delta m (ledger db0)"
    by blast
  have es: "map le_txn_type es = [IN, IN, IN] \<and> map le_quantity es = [6, 3 / 2, 3]"
    using r(5)
    by (auto simp: ev create_production_order_and_deduct_stock_def atomic_def new_id_def
        consumptions_of_def)
  have s1: "stock (snd ?r) 1 = 94 \<and> stock (snd ?r) 2 = 7 / 2 \<and> stock (snd ?r) 3 = 1 \<and>
      map le_txn_type (ledger (snd ?r)) = [OUT, OUT, OUT] \<and>
      map le_quantity (ledger (snd ?r)) = [6, 3 / 2, 3]"
    by (simp add: ev create_production_order_and_deduct_stock_def atomic_def new_id_def)
  have d0: "ledger_delta 1 (ledger db0) = 0" "ledger_delta 2 (ledger db0) = 0"
    "ledger_delta 3 (ledger db0) = 0"
    by (simp_all add: ledger_delta_def db0_def)
  show ?thesis
    apply (rule exI [of _ "projr (fst ?r)"], rule exI [of _ "snd ?r"])
    apply (rule exI [of _ order'], rule exI [of _ s2])
    using c r(1,2,3,4,6) es s1 d0 by simp
qed

subsection \<open>Cancelling and reopening a purchase order\<close>

text \<open>
  C7. For an existing purchase order: \<open>cancel_purchase_order\<close> succeeds from \<open>OPEN\<close> and
  from \<open>PARTIALLY_RECEIVED\<close>, setting the status to cancelled and stamping canceller and
  time, and fails from \<open>RECEIVED\<close> (a fully received order cannot be cancelled) and from
  cancelled (already cancelled). \<open>reopen_purchase_order\<close> fails from every status but
  cancelled; from cancelled it fails when every line is fully received (with the
  fully-received error, or the no-lines error when the order has no line at all), and
  otherwise restores \<open>PARTIALLY_RECEIVED\<close> when some line has receipts and \<open>OPEN\<close> when
  none has, clearing canceller and time. Neither operation changes a line, a material row
  or the ledger, and a failure changes nothing.
\<close>

theorem cancel_and_reopen_purchase_order_spec:
  assumes got: "get_purchase_order s pk = Some order"
  shows
    "(po_status order \<in> {OPEN, PARTIALLY_RECEIVED} \<longrightarrow>
        (\<exists>s'. cancel_purchase_order pk user now s =
                (Inr (order\<lparr>po_status := PO_CANCELLED, cancelled_by := Some user,
                            cancelled_at := Some now\<rparr>), s') \<and>
              get_purchase_order s' pk =
                Some (order\<lparr>po_status := PO_CANCELLED, cancelled_by := Some user,
                            cancelled_at := Some now\<rparr>) \<and>
              purchase_order_items s' = purchase_order_items s \<and>
              raw_materials s' = raw_materials s \<and> ledger s' = ledger s)) \<and>
     (po_status order = RECEIVED \<longrightarrow>
        cancel_purchase_order pk user now s = (Inl ReceivedCannotBeCancelled, s)) \<and>
     (po_status order = PO_CANCELLED \<longrightarrow>
        cancel_purchase_order pk user now s = (Inl PurchaseAlreadyCancelled, s)) \<and>
     (po_status order \<noteq> PO_CANCELLED \<longrightarrow>
        reopen_purchase_order pk s = (Inl OnlyCancelledCanBeReopened, s)) \<and>
     (po_status order = PO_CANCELLED \<and>
      (\<forall>item\<in>set (items_of s pk). item_quantity item \<le> received_quantity item) \<longrightarrow>
        reopen_purchase_order pk s =
          (Inl (if items_of s pk = [] then NoLineItems else FullyReceivedCannotBeReopened), s)) \<and>
     (po_status order = PO_CANCELLED \<and>
      (\<exists>item\<in>set (items_of s pk). received_quantity item < item_quantity item) \<longrightarrow>
        (\<exists>s'. reopen_purchase_order pk s =
                (Inr (order\<lparr>po_status :=
                               (if \<exists>item\<in>set (items_of s pk). 0 < received_quantity item
                                then PARTIALLY_RECEIVED else OPEN),
                            cancelled_by := None, cancelled_at := None\<rparr>), s') \<and>
              get_purchase_order s' pk =
                Some (order\<lparr>po_status :=
                               (if \<exists>item\<in>set (items_of s pk). 0 < received_quantity item
                                then PARTIALLY_RECEIVED else OPEN),
                            cancelled_by := None, cancelled_at := None\<rparr>) \<and>
              purchase_order_items s' = purchase_order_items s \<and>
              raw_materials s' = raw_materials s \<and> ledger s' = ledger s))"
proof -
  have pk: "po_id order = pk" using got by (rule get_purchase_order_id)
  have saved: "\<And>order'. po_id order' = pk \<Longrightarrow>
      get_purchase_order (save_purchase_order order' s) pk = Some order'"
    using get_saved_purchase_order [of s _ order] got by auto
  have pend: "\<And>item. (0 < pending_quantity item) = (received_quantity item < item_quantity item)"
    by (auto simp: pending_quantity_def Let_def)
  have c1: "po_status order \<in> {OPEN, PARTIALLY_RECEIVED} \<longrightarrow>
        (\<exists>s'. cancel_purchase_order pk user now s =
                (Inr (order\<lparr>po_status := PO_CANCELLED, cancelled_by := Some user,
                            cancelled_at := Some now\<rparr>), s') \<and>
              get_purchase_order s' pk =
                Some (order\<lparr>po_status := PO_CANCELLED, cancelled_by := Some user,
                            cancelled_at := Some now\<rparr>) \<and>
              purchase_order_items s' = purchase_order_items s \<and>
              raw_materials s' = raw_materials s \<and> ledger s' = ledger s)"
    using got saved [of "order\<lparr>po_status := PO_CANCELLED, cancelled_by := Some user,
                            cancelled_at := Some now\<rparr>"] pk
    by (auto simp: cancel_purchase_order_def atomic_def Let_def save_purchase_order_def)
  have c2: "po_status order = RECEIVED \<longrightarrow>
        cancel_purchase_order pk user now s = (Inl ReceivedCannotBeCancelled, s)"
    using got by (simp add: cancel_purchase_order_def atomic_def)
  have c3: "po_status order = PO_CANCELLED \<longrightarrow>
        cancel_purchase_order pk user now s = (Inl PurchaseAlreadyCancelled, s)"
    using got by (simp add: cancel_purchase_order_def atomic_def)
  have r1: "po_status order \<noteq> PO_CANCELLED \<longrightarrow>
        reopen_purchase_order pk s = (Inl OnlyCancelledCanBeReopened, s)"
    using got by (simp add: reopen_purchase_order_def atomic_def)
  have r2: "po_status order = PO_CANCELLED \<and>
      (\<forall>item\<in>set (items_of s pk). item_quantity item \<le> received_quantity item) \<longrightarrow>
        reopen_purchase_order pk s =
          (Inl (if items_of s pk = [] then NoLineItems else FullyReceivedCannotBeReopened), s)"
    using got
    by (auto simp: reopen_purchase_order_def atomic_def Let_def list_ex_iff pend not_less)
  have r3: "po_status order = PO_CANCELLED \<and>
      (\<exists>item\<in>set (items_of s pk). received_quantity item < item_quantity item) \<longrightarrow>
        (\<exists>s'. reopen_purchase_order pk s =
                (Inr (order\<lparr>po_status :=
                               (if \<exists>item\<in>set (items_of s pk). 0 < received_quantity item
                                then PARTIALLY_RECEIVED else OPEN),
                            cancelled_by := None, cancelled_at := None\<rparr>), s') \<and>
              get_purchase_order s' pk =
                Some (order\<lparr>po_status :=
                               (if \<exists>item\<in>set (items_of s pk). 0 < received_quantity item
                                then PARTIALLY_RECEIVED else OPEN),
                            cancelled_by := None, cancelled_at := None\<rparr>) \<and>
              purchase_order_items s' = purchase_order_items s \<and>
              raw_materials s' = raw_materials s \<and> ledger s' = ledger s)"
  proof
    assume a: "po_status order = PO_CANCELLED \<and>
      (\<exists>item\<in>set (items_of s pk). received_quantity item < item_quantity item)"
    let ?order' = "order\<lparr>po_status :=
                               (if \<exists>item\<in>set (items_of s pk). 0 < received_quantity item
                                then PARTIALLY_RECEIVED else OPEN),
                            cancelled_by := None, cancelled_at := None\<rparr>"
    from a have ne: "items_of s pk \<noteq> []" by auto
    from a have pe: "list_ex (\<lambda>item. 0 < pending_quantity item) (items_of s pk)"
      by (simp add: list_ex_iff pend)
    have re: "reopen_purchase_order pk s = (Inr ?order', save_purchase_order ?order' s)"
      using got a ne pe
      by (simp add: reopen_purchase_order_def atomic_def Let_def list_ex_iff)
    show "\<exists>s'. reopen_purchase_order pk s = (Inr ?order', s') \<and>
              get_purchase_order s' pk = Some ?order' \<and>
              purchase_order_items s' = purchase_order_items s \<and>
              raw_materials s' = raw_materials s \<and> ledger s' = ledger s"
      using re saved [of ?order'] pk by (simp add: save_purchase_order_def)
  qed
  from c1 c2 c3 r1 r2 r3 show ?thesis by blast
qed

theorem cancel_and_reopen_purchase_order_spec_witness:
  "map_sum id (\<lambda>order. (po_status order, cancelled_by order, cancelled_at order))
     (fst (cancel_purchase_order 1 8 101
        (snd (receive_purchase_order 1 7 100 (Some [(1, 4)]) db_po))))
     = Inr (PO_CANCELLED, Some 8, Some 101) \<and>
   map received_quantity (purchase_order_items
     (snd (cancel_purchase_order 1 8 101
        (snd (receive_purchase_order 1 7 100 (Some [(1, 4)]) db_po))))) = [4, 0, 0] \<and>
   stock (snd (cancel_purchase_order 1 8 101
        (snd (receive_purchase_order 1 7 100 (Some [(1, 4)]) db_po)))) 1 = 104 \<and>
   fst (cancel_purchase_order 1 8 101 (snd (receive_purchase_order 1 7 100 None db_po)))
     = Inl ReceivedCannotBeCancelled \<and>
   fst (cancel_purchase_order 1 8 102 (snd (cancel_purchase_order 1 8 101 db_po)))
     = Inl PurchaseAlreadyCancelled \<and>
   reopen_purchase_order 1 db_po = (Inl OnlyCancelledCanBeReopened, db_po) \<and>
   map_sum id (\<lambda>order. (po_status order, cancelled_by order, cancelled_at order))
     (fst (reopen_purchase_order 1
        (snd (cancel_purchase_order 1 8 101
           (snd (receive_purchase_order 1 7 100 (Some [(1, 4)]) db_po))))))
     = Inr (PARTIALLY_RECEIVED, None, None) \<and>
   map_sum id po_status
     (fst (reopen_purchase_order 1 (snd (cancel_purchase_order 1 8 101 db_po))))
     = Inr OPEN"
proof -
  let ?s1 = "snd (receive_purchase_order 1 7 100 (Some [(1, 4)]) db_po)"
  let ?s2 = "snd (cancel_purchase_order 1 8 101 ?s1)"
  let ?sf = "snd (receive_purchase_order 1 7 100 None db_po)"
  let ?sc = "snd (cancel_purchase_order 1 8 101 db_po)"
  note t = cancel_and_reopen_purchase_order_spec
  show ?thesis
    using t [of ?s1 1 "the (get_purchase_order ?s1 1)" 8 101]
      t [of ?sf 1 "the (get_purchase_order ?sf 1)" 8 101]
      t [of ?sc 1 "the (get_purchase_order ?sc 1)" 8 102]
      t [of db_po 1 "the (get_purchase_order db_po 1)" 8 101]
      t [of ?s2 1 "the (get_purchase_order ?s2 1)" 8 101]
    by (simp add: ev ev_purchasing)
qed


subsection \<open>Receiving against a purchase order: rejected payloads\<close>

text \<open>
  C5, as the code has it. For a purchase order in \<open>OPEN\<close> or \<open>PARTIALLY_RECEIVED\<close> with
  at least one line, and a payload of line quantities: an empty payload is no payload
  (the pending quantity of every line is received); in a non-empty payload the entries
  that are not greater than zero are dropped, not rejected, the call being the call with
  the entries greater than zero alone. \<open>receive_purchase_order\<close> fails with the
  nothing-to-receive error when the payload is not empty and no entry is greater than
  zero, with the invalid-item error when an entry greater than zero names no line of the
  order, and otherwise with the exceeds-pending error whenever an entry greater than zero
  exceeds the pending quantity of its line. On each of these failures the database is
  what it was: no balance, no received quantity, no ledger row and no order status
  changes.
\<close>

theorem receive_rejects_invalid_quantities:
  assumes got: "get_purchase_order s pk = Some order"
    and st: "po_status order \<in> {OPEN, PARTIALLY_RECEIVED}"
    and items: "items_of s pk \<noteq> []"
    and ids: "distinct (map item_id (items_of s pk))"
  shows
    "receive_purchase_order pk user now (Some []) s = receive_purchase_order pk user now None s \<and>
     (filter (\<lambda>(k, q). 0 < q) lq \<noteq> [] \<longrightarrow>
        receive_purchase_order pk user now (Some lq) s =
          receive_purchase_order pk user now (Some (filter (\<lambda>(k, q). 0 < q) lq)) s) \<and>
     (lq \<noteq> [] \<and> (\<forall>(k, q)\<in>set lq. \<not> 0 < q) \<longrightarrow>
        receive_purchase_order pk user now (Some lq) s = (Inl NothingToReceive, s)) \<and>
     ((\<exists>(k, q)\<in>set lq. 0 < q \<and> k \<notin> set (map item_id (items_of s pk))) \<longrightarrow>
        receive_purchase_order pk user now (Some lq) s = (Inl InvalidItemInPayload, s)) \<and>
     ((\<forall>(k, q)\<in>set lq. 0 < q \<longrightarrow> k \<in> set (map item_id (items_of s pk))) \<and>
      (\<exists>(k, q)\<in>set lq. 0 < q \<and>
         (\<exists>item\<in>set (items_of s pk). item_id item = k \<and> pending_quantity item < q)) \<longrightarrow>
        (\<exists>name pending.
           receive_purchase_order pk user now (Some lq) s =
             (Inl (ExceedsPending name pending), s)))"
proof (intro conjI impI)
  have rq: "receive_quantities items (Some []) = receive_quantities items None" for items
    by (simp add: receive_quantities_def)
  show "receive_purchase_order pk user now (Some []) s
      = receive_purchase_order pk user now None s"
    unfolding receive_purchase_order_def rq by (rule refl)
next
  let ?pos = "filter (\<lambda>(k, q). 0 < q) lq"
  assume pos: "?pos \<noteq> []"
  have f: "filter (\<lambda>(item_id, quantity). quantity \<noteq> 0 \<and> quantity > 0) xs
         = filter (\<lambda>(k, q). 0 < q) xs" for xs :: "(nat \<times> decimal) list"
    by (rule filter_cong) auto
  have ne: "lq \<noteq> []" using pos by auto
  have idem: "filter (\<lambda>(item_id, quantity). quantity \<noteq> 0 \<and> quantity > 0) ?pos = ?pos"
    unfolding f by (auto simp: filter_id_conv)
  have given: "receive_quantities items (Some lq) = Inr ?pos" for items
    using ne pos by (simp add: receive_quantities_def Let_def f)
  have kept: "receive_quantities items (Some ?pos) = Inr ?pos" for items
    using pos idem by (simp add: receive_quantities_def Let_def del: filter_filter)
  have rq: "receive_quantities items (Some lq) = receive_quantities items (Some ?pos)"
    for items
    unfolding given kept ..
  show "receive_purchase_order pk user now (Some lq) s
      = receive_purchase_order pk user now (Some ?pos) s"
    unfolding receive_purchase_order_def rq by (rule refl)
next
  assume "lq \<noteq> [] \<and> (\<forall>(k, q)\<in>set lq. \<not> 0 < q)"
  then have ne: "lq \<noteq> []" and none: "\<forall>(k, q)\<in>set lq. \<not> 0 < q" by simp_all
  from none have "filter (\<lambda>(item_id, quantity). quantity \<noteq> 0 \<and> quantity > 0) lq = []"
    by (auto simp: filter_empty_conv)
  then have rq: "receive_quantities (items_of s pk) (Some lq) = Inl NothingToReceive"
    using ne by (simp add: receive_quantities_def Let_def)
  show "receive_purchase_order pk user now (Some lq) s = (Inl NothingToReceive, s)"
    unfolding receive_purchase_order_def atomic_def Let_def
    using got st items rq by auto
next
  let ?qs = "filter (\<lambda>(item_id, quantity). quantity \<noteq> 0 \<and> quantity > 0) lq"
  assume unknown: "\<exists>(k, q)\<in>set lq. 0 < q \<and> k \<notin> set (map item_id (items_of s pk))"
  then have qne: "?qs \<noteq> []" and ne: "lq \<noteq> []"
    by (fastforce simp: filter_empty_conv)+
  have rq: "receive_quantities (items_of s pk) (Some lq) = Inr ?qs"
    using ne qne by (simp add: receive_quantities_def Let_def)
  have unk: "list_ex (\<lambda>k. k \<notin> set (map item_id (items_of s pk))) (map fst ?qs)"
    using unknown by (fastforce simp: list_ex_iff)
  show "receive_purchase_order pk user now (Some lq) s = (Inl InvalidItemInPayload, s)"
    unfolding receive_purchase_order_def atomic_def Let_def
    using got st items rq unk by auto
next
  let ?qs = "filter (\<lambda>(item_id, quantity). quantity \<noteq> 0 \<and> quantity > 0) lq"
  assume "(\<forall>(k, q)\<in>set lq. 0 < q \<longrightarrow> k \<in> set (map item_id (items_of s pk))) \<and>
      (\<exists>(k, q)\<in>set lq. 0 < q \<and>
         (\<exists>item\<in>set (items_of s pk). item_id item = k \<and> pending_quantity item < q))"
  then have known: "\<forall>(k, q)\<in>set lq. 0 < q \<longrightarrow> k \<in> set (map item_id (items_of s pk))"
    and ex: "\<exists>(k, q)\<in>set lq. 0 < q \<and>
         (\<exists>item\<in>set (items_of s pk). item_id item = k \<and> pending_quantity item < q)"
    by simp_all
  from ex have qne: "?qs \<noteq> []" and ne: "lq \<noteq> []"
    by (fastforce simp: filter_empty_conv)+
  have rq: "receive_quantities (items_of s pk) (Some lq) = Inr ?qs"
    using ne qne by (simp add: receive_quantities_def Let_def)
  have kn: "\<forall>(k, q)\<in>set ?qs. k \<in> set (map item_id (items_of s pk))"
    using known by auto
  then have unk: "\<not> list_ex (\<lambda>k. k \<notin> set (map item_id (items_of s pk))) (map fst ?qs)"
    by (auto simp: list_ex_iff)
  have "\<exists>(k, q)\<in>set ?qs. \<exists>item\<in>set (items_of s pk).
          item_id item = k \<and> pending_quantity item < q"
    using ex by auto
  from check_pending_exceeds [OF ids kn this, of s]
  obtain name pending where cp:
    "check_pending s (items_of s pk) ?qs = Inl (ExceedsPending name pending)"
    by blast
  have "receive_purchase_order pk user now (Some lq) s = (Inl (ExceedsPending name pending), s)"
    unfolding receive_purchase_order_def atomic_def Let_def
    using got st items rq unk cp by auto
  then show "\<exists>name pending.
           receive_purchase_order pk user now (Some lq) s =
             (Inl (ExceedsPending name pending), s)"
    by blast
qed

theorem receive_rejects_invalid_quantities_witness:
  "receive_purchase_order 1 7 100 (Some [(1, 7)])
     (snd (receive_purchase_order 1 7 100 (Some [(1, 4)]) db_po))
     = (Inl (ExceedsPending ''Canvas'' 6),
        snd (receive_purchase_order 1 7 100 (Some [(1, 4)]) db_po)) \<and>
   receive_purchase_order 2 7 100 (Some [(2, 0), (3, - 1)]) db_po = (Inl NothingToReceive, db_po) \<and>
   receive_purchase_order 1 7 100 (Some [(9, 1)]) db_po = (Inl InvalidItemInPayload, db_po) \<and>
   receive_purchase_order 2 7 100 (Some [(2, 4), (3, 0)]) db_po
     = receive_purchase_order 2 7 100 (Some [(2, 4)]) db_po \<and>
   receive_purchase_order 1 7 100 (Some []) db_po = receive_purchase_order 1 7 100 None db_po"
proof -
  let ?s1 = "snd (receive_purchase_order 1 7 100 (Some [(1, 4)]) db_po)"
  note t = receive_rejects_invalid_quantities
  show ?thesis
    using t [of ?s1 1 "the (get_purchase_order ?s1 1)" 7 100 "[(1, 7)]"]
      t [of db_po 2 "the (get_purchase_order db_po 2)" 7 100 "[(2, 0), (3, - 1)]"]
      t [of db_po 1 "the (get_purchase_order db_po 1)" 7 100 "[(9, 1)]"]
      t [of db_po 2 "the (get_purchase_order db_po 2)" 7 100 "[(2, 4), (3, 0)]"]
    by (simp add: ev ev_purchasing)
qed

text \<open>
  The claim as the specification states it asks for a failure whenever an entry is not
  greater than zero. It does not hold: a payload with one valid entry and one zero entry
  is accepted, the zero entry being ignored.
\<close>

theorem receive_zero_entry_counterexample:
  "map_sum id po_status (fst (receive_purchase_order 2 7 100 (Some [(2, 4), (3, 0)]) db_po))
     = Inr PARTIALLY_RECEIVED \<and>
   map received_quantity
     (purchase_order_items (snd (receive_purchase_order 2 7 100 (Some [(2, 4), (3, 0)]) db_po)))
     = [0, 4, 0]"
  by (simp add: ev ev_purchasing)


subsection \<open>Receiving against a purchase order: the receipt\<close>

text \<open>
  C6. When \<open>receive_purchase_order\<close> succeeds, on stored quantities and a payload of
  three decimal places: with the quantities to receive that the call has determined
  (the entries of the payload greater than zero, or every pending quantity), the received
  quantity of every accepted line has grown by its amount and the other lines of the
  order are as they were; every material balance has grown by the amounts of the
  accepted lines of that material; the ledger has grown by one \<open>IN\<close> entry per accepted
  line, with its amount; and the order, as returned and as stored, has the status
  computed from the lines as they now are: \<open>RECEIVED\<close> when every line has received its
  ordered quantity, in which case the receiver and the time are stamped, else
  \<open>PARTIALLY_RECEIVED\<close> when some line has received something, else \<open>OPEN\<close>.
\<close>

theorem receive_purchase_order_spec:
  assumes ok: "receive_purchase_order pk user now lq s = (Inr order', s')"
    and ids: "distinct (map item_id (purchase_order_items s))"
    and d3_lines: "\<forall>item\<in>set (items_of s pk).
                     decimal3 (item_quantity item) \<and> decimal3 (received_quantity item)"
    and d3_stock: "\<forall>m material. raw_materials s m = Some material \<longrightarrow>
                     decimal3 (current_stock material)"
    and d3_payload: "\<forall>given. lq = Some given \<longrightarrow> (\<forall>(k, q)\<in>set given. decimal3 q)"
  shows "\<exists>quantities es.
     receive_quantities (items_of s pk) lq = Inr quantities \<and>
     items_of s' pk =
       map (\<lambda>item. if 0 < quantity_for quantities item
                    then item\<lparr>received_quantity :=
                                received_quantity item + quantity_for quantities item\<rparr>
                    else item) (items_of s pk) \<and>
     (\<forall>m. raw_materials s' m =
            map_option (\<lambda>material. material\<lparr>current_stock := current_stock material +
                sum_list (map (quantity_for quantities)
                  (filter (\<lambda>item. item_material_id item = m)
                     (accepted_lines quantities (items_of s pk))))\<rparr>)
              (raw_materials s m)) \<and>
     ledger s' = ledger s @ es \<and>
     map (\<lambda>e. (le_material e, le_txn_type e, le_quantity e, le_reference_id e)) es =
       map (\<lambda>item. (item_material_id item, IN, quantity_for quantities item, pk))
         (accepted_lines quantities (items_of s pk)) \<and>
     get_purchase_order s' pk = Some order' \<and>
     po_status order' =
       (if \<forall>item\<in>set (items_of s' pk). item_quantity item \<le> received_quantity item
        then RECEIVED
        else if \<exists>item\<in>set (items_of s' pk). 0 < received_quantity item
        then PARTIALLY_RECEIVED
        else OPEN) \<and>
     (po_status order' = RECEIVED \<longrightarrow>
        received_by order' = Some user \<and> received_at order' = Some now)"
proof -
  let ?items = "items_of s pk"
  let ?materials = "raw_materials s |` set (map item_material_id ?items)"
  from ok obtain locked where got: "get_purchase_order s pk = Some locked"
    by (auto simp: receive_purchase_order_def atomic_def split: option.splits)
  from ok got obtain qs where rq: "receive_quantities ?items lq = Inr qs"
    by (auto simp: receive_purchase_order_def atomic_def Let_def split: if_splits sum.splits)
  from ok got rq obtain items1 s1
    where ri: "receive_items pk user qs ?materials ?items s = Inr (items1, s1)"
    by (auto simp: receive_purchase_order_def atomic_def Let_def
          split: if_splits sum.splits prod.splits)
  let ?order = "if derive_status items1 = RECEIVED
                then locked\<lparr>po_status := derive_status items1,
                            received_by := Some user, received_at := Some now\<rparr>
                else locked\<lparr>po_status := derive_status items1\<rparr>"
  from ok got rq ri have res: "order' = ?order" "s' = save_purchase_order ?order s1"
    by (auto simp: receive_purchase_order_def atomic_def Let_def
          split: if_splits sum.splits prod.splits)
  have di: "distinct (map item_id ?items)"
    using ids by (simp add: items_of_def distinct_map_filter)
  have inv: "\<forall>item\<in>set ?items. ?materials (item_material_id item)
           = raw_materials s (item_material_id item)"
    by simp
  have dq: "\<forall>(k, q)\<in>set qs. decimal3 q"
    using rq d3_lines d3_payload
    by (auto simp: receive_quantities_def Let_def pending_quantity_def decimal3_diff decimal3_0
          split: if_splits option.splits)
  have d3: "\<forall>item\<in>set ?items. decimal3 (received_quantity item) \<and> decimal3 (quantity_for qs item)"
    using d3_lines decimal3_quantity_for [OF dq] by simp
  have st: "\<forall>item\<in>set ?items. \<forall>material.
           raw_materials s (item_material_id item) = Some material \<longrightarrow>
           decimal3 (current_stock material)"
    using d3_stock by simp
  note r = receive_items_Inr_D [OF ri di inv d3 st]
  let ?f = "\<lambda>i. if 0 < quantity_for qs i
                    then i\<lparr>received_quantity := received_quantity i + quantity_for qs i\<rparr>
                    else i"
  let ?es = "map (\<lambda>i. \<lparr>le_material = item_material_id i,
                         le_txn_type = IN,
                         le_quantity = quantity_for qs i,
                         le_unit = item_unit i,
                         le_reason = ReceivedAgainstPurchaseOrder pk
                                       (material_name s (item_material_id i)),
                         le_reference_type = ''purchase_order'',
                         le_reference_id = pk,
                         le_created_by = user\<rparr>)
                (filter (\<lambda>i. 0 < quantity_for qs i) ?items)"
  have i1: "items1 = map ?f ?items" by (rule conjunct1 [OF r])
  have tab: "purchase_order_items s' =
      map (\<lambda>row. case find (\<lambda>i. item_id i = item_id row) ?items of
                            Some i \<Rightarrow> ?f i
                          | None \<Rightarrow> row) (purchase_order_items s)"
  proof -
    have "purchase_order_items s' = purchase_order_items s1"
      by (simp add: res(2) save_purchase_order_def)
    also have "\<dots> = map (\<lambda>row. case find (\<lambda>i. item_id i = item_id row) ?items of
                            Some i \<Rightarrow>
                              if 0 < quantity_for qs i
                              then i\<lparr>received_quantity := received_quantity i + quantity_for qs i\<rparr>
                              else row
                          | None \<Rightarrow> row) (purchase_order_items s)"
      unfolding conjunct2 [OF r] by simp
    also have "\<dots> = map (\<lambda>row. case find (\<lambda>i. item_id i = item_id row) ?items of
                            Some i \<Rightarrow> ?f i
                          | None \<Rightarrow> row) (purchase_order_items s)"
    proof (rule map_cong [OF refl])
      fix row assume "row \<in> set (purchase_order_items s)"
      show "(case find (\<lambda>i. item_id i = item_id row) ?items of
                            Some i \<Rightarrow>
                              if 0 < quantity_for qs i
                              then i\<lparr>received_quantity := received_quantity i + quantity_for qs i\<rparr>
                              else row
                          | None \<Rightarrow> row)
          = (case find (\<lambda>i. item_id i = item_id row) ?items of
                            Some i \<Rightarrow> ?f i
                          | None \<Rightarrow> row)"
      proof (cases "find (\<lambda>i. item_id i = item_id row) ?items")
        case None
        then show ?thesis by simp
      next
        case (Some i)
        then have "i \<in> set ?items" "item_id i = item_id row"
          by (auto simp: find_Some_iff)
        then have "i \<in> set (purchase_order_items s)" by (simp add: items_of_def)
        with \<open>row \<in> set (purchase_order_items s)\<close> \<open>item_id i = item_id row\<close> ids
        have "i = row" by (meson distinct_map inj_onD)
        with Some show ?thesis by simp
      qed
    qed
    finally show ?thesis .
  qed
  have lines: "items_of s' pk = map ?f ?items"
    unfolding items_of_def [of s'] tab
    by (rule saved_items_of [OF ids]) simp
  have rm: "\<forall>m. raw_materials s' m =
            map_option (\<lambda>material. material\<lparr>current_stock := current_stock material +
                sum_list (map (quantity_for qs)
                  (filter (\<lambda>item. item_material_id item = m)
                     (accepted_lines qs ?items)))\<rparr>)
              (raw_materials s m)"
    unfolding res(2) conjunct2 [OF r]
    by (simp add: save_purchase_order_def accepted_lines_def conj_commute)
  have led: "ledger s' = ledger s @ ?es"
    unfolding res(2) conjunct2 [OF r] by (simp add: save_purchase_order_def)
  have es: "map (\<lambda>e. (le_material e, le_txn_type e, le_quantity e, le_reference_id e)) ?es =
       map (\<lambda>item. (item_material_id item, IN, quantity_for qs item, pk))
         (accepted_lines qs ?items)"
    by (simp add: accepted_lines_def comp_def)
  have pk: "po_id ?order = pk"
    using get_purchase_order_id [OF got] by simp
  have g1: "get_purchase_order s1 pk = Some locked"
    unfolding conjunct2 [OF r] using got by (simp add: get_purchase_order_def)
  have g': "get_purchase_order s' pk = Some order'"
    unfolding res
    using get_saved_purchase_order [of s1 ?order locked] g1 pk by simp
  have status: "po_status order' = derive_status (items_of s' pk)"
    unfolding lines res(1) i1 by simp
  have stamp: "po_status order' = RECEIVED \<longrightarrow>
        received_by order' = Some user \<and> received_at order' = Some now"
    unfolding res(1) by simp
  have ds: "derive_status xs =
       (if \<forall>item\<in>set xs. item_quantity item \<le> received_quantity item
        then RECEIVED
        else if \<exists>item\<in>set xs. 0 < received_quantity item
        then PARTIALLY_RECEIVED
        else OPEN)" for xs
    by (simp add: derive_status_def Let_def list_all_iff list_ex_iff)
  show ?thesis
    apply (rule exI [of _ qs], rule exI [of _ ?es])
    apply (intro conjI)
           apply (rule rq)
          apply (rule lines)
         apply (rule rm)
        apply (rule led)
       apply (rule es)
      apply (rule g')
     apply (simp only: status ds)
    apply (rule stamp)
    done
qed


theorem receive_purchase_order_spec_witness:
  "map received_quantity
     (items_of (snd (receive_purchase_order 1 7 101 (Some [(1, 6)])
                  (snd (receive_purchase_order 1 7 100 (Some [(1, 4)]) db_po)))) 1) = [10] \<and>
   map_sum id (\<lambda>order. (po_status order, received_by order, received_at order))
     (fst (receive_purchase_order 1 7 101 (Some [(1, 6)])
             (snd (receive_purchase_order 1 7 100 (Some [(1, 4)]) db_po))))
     = Inr (RECEIVED, Some 7, Some 101) \<and>
   stock (snd (receive_purchase_order 1 7 101 (Some [(1, 6)])
                  (snd (receive_purchase_order 1 7 100 (Some [(1, 4)]) db_po)))) 1 = 110 \<and>
   (\<exists>es. ledger (snd (receive_purchase_order 1 7 101 (Some [(1, 6)])
                        (snd (receive_purchase_order 1 7 100 (Some [(1, 4)]) db_po))))
           = ledger (snd (receive_purchase_order 1 7 100 (Some [(1, 4)]) db_po)) @ es \<and>
         map (\<lambda>e. (le_material e, le_txn_type e, le_quantity e, le_reference_id e)) es
           = [(1, IN, 6, 1)])"
proof -
  let ?s1 = "snd (receive_purchase_order 1 7 100 (Some [(1, 4)]) db_po)"
  let ?r2 = "receive_purchase_order 1 7 101 (Some [(1, 6)]) ?s1"
  let ?s2 = "snd ?r2"
  let ?o2 = "the (get_purchase_order ?s2 1)"
  have s1: "?s1 = db_po
      \<lparr>raw_materials := (raw_materials db_po)(1 \<mapsto> canvas\<lparr>current_stock := 104\<rparr>),
       purchase_order_items :=
           [\<lparr>item_id = 1, item_purchase_order = 1, item_material_id = 1,
             item_quantity = 10, received_quantity = 4, item_unit = ''m''\<rparr>,
            \<lparr>item_id = 2, item_purchase_order = 2, item_material_id = 2,
             item_quantity = 10, received_quantity = 0, item_unit = ''kg''\<rparr>,
            \<lparr>item_id = 3, item_purchase_order = 2, item_material_id = 3,
             item_quantity = 10, received_quantity = 0, item_unit = ''pieces''\<rparr>],
       ledger := [\<lparr>le_material = 1, le_txn_type = IN, le_quantity = 4, le_unit = ''m'',
                   le_reason = ReceivedAgainstPurchaseOrder 1 ''Canvas'',
                   le_reference_type = ''purchase_order'', le_reference_id = 1,
                   le_created_by = 7\<rparr>],
       purchase_orders :=
           [\<lparr>po_id = 1, po_vendor = 1, po_order_date = 20260220,
             po_status = PARTIALLY_RECEIVED,
             po_notes = ''Restock'', po_created_by = 7, received_by = None,
             received_at = None, cancelled_by = None, cancelled_at = None\<rparr>,
            \<lparr>po_id = 2, po_vendor = 2, po_order_date = 20260220, po_status = OPEN,
             po_notes = ''Restock'', po_created_by = 7, received_by = None,
             received_at = None, cancelled_by = None, cancelled_at = None\<rparr>]\<rparr>"
    by (simp add: ev ev_purchasing)
  have ok: "?r2 = (Inr ?o2, ?s2)"
    unfolding s1 by (simp add: ev ev_purchasing)
  have ids: "distinct (map item_id (purchase_order_items ?s1))"
    unfolding s1 by simp
  have lines: "\<forall>item\<in>set (items_of ?s1 1).
                     decimal3 (item_quantity item) \<and> decimal3 (received_quantity item)"
    unfolding s1 by (simp add: items_of_def decimal3_def)
  have stocks: "\<forall>m material. raw_materials ?s1 m = Some material \<longrightarrow>
                     decimal3 (current_stock material)"
    unfolding s1 by (auto simp: ev db_po_def split: if_splits)
  have payload: "\<forall>given. Some [(1::nat, 6::rat)] = Some given \<longrightarrow>
      (\<forall>(k, q)\<in>set given. decimal3 q)"
    by (simp add: decimal3_def)
  from receive_purchase_order_spec [OF ok ids lines stocks payload]
  obtain quantities es where
      q: "receive_quantities (items_of ?s1 1) (Some [(1, 6)]) = Inr quantities"
    and i: "items_of ?s2 1 =
       map (\<lambda>item. if 0 < quantity_for quantities item
                    then item\<lparr>received_quantity :=
                                received_quantity item + quantity_for quantities item\<rparr>
                    else item) (items_of ?s1 1)"
    and m: "\<forall>m. raw_materials ?s2 m =
            map_option (\<lambda>material. material\<lparr>current_stock := current_stock material +
                sum_list (map (quantity_for quantities)
                  (filter (\<lambda>item. item_material_id item = m)
                     (accepted_lines quantities (items_of ?s1 1))))\<rparr>)
              (raw_materials ?s1 m)"
    and l: "ledger ?s2 = ledger ?s1 @ es"
    and e: "map (\<lambda>e. (le_material e, le_txn_type e, le_quantity e, le_reference_id e)) es =
       map (\<lambda>item. (item_material_id item, IN, quantity_for quantities item, 1))
         (accepted_lines quantities (items_of ?s1 1))"
    and g: "get_purchase_order ?s2 1 = Some ?o2"
    and p: "po_status ?o2 =
       (if \<forall>item\<in>set (items_of ?s2 1). item_quantity item \<le> received_quantity item
        then RECEIVED
        else if \<exists>item\<in>set (items_of ?s2 1). 0 < received_quantity item
        then PARTIALLY_RECEIVED
        else OPEN)"
    and r: "po_status ?o2 = RECEIVED \<longrightarrow>
        received_by ?o2 = Some 7 \<and> received_at ?o2 = Some 101"
    by blast
  have qs: "quantities = [(1, 6)]"
    using q unfolding s1 by (simp add: items_of_def receive_quantities_def db_po_def)
  have i1: "items_of ?s1 1 = [\<lparr>item_id = 1, item_purchase_order = 1, item_material_id = 1,
             item_quantity = 10, received_quantity = 4, item_unit = ''m''\<rparr>]"
    unfolding s1 by (simp add: items_of_def)
  have i2: "items_of ?s2 1 = [\<lparr>item_id = 1, item_purchase_order = 1, item_material_id = 1,
             item_quantity = 10, received_quantity = 10, item_unit = ''m''\<rparr>]"
    unfolding i qs i1 by (simp add: quantity_for_def)
  have a: "map received_quantity (items_of ?s2 1) = [10]"
    unfolding i2 by simp
  have st: "po_status ?o2 = RECEIVED" unfolding p i2 by simp
  have f: "fst ?r2 = Inr ?o2"
    using arg_cong [OF ok, of fst] by (simp only: fst_conv)
  have b: "map_sum id (\<lambda>order. (po_status order, received_by order, received_at order))
     (fst ?r2) = Inr (RECEIVED, Some 7, Some 101)"
    unfolding f using st r by simp
  have m1: "raw_materials ?s2 1 =
      map_option (\<lambda>material. material\<lparr>current_stock := current_stock material + 6\<rparr>)
        (raw_materials ?s1 1)"
    using m [rule_format, of 1] unfolding qs i1
    by (simp add: accepted_lines_def quantity_for_def)
  have rs1: "raw_materials ?s1 1 = Some (canvas\<lparr>current_stock := 104\<rparr>)"
    unfolding s1 by simp
  have c: "stock ?s2 1 = 110"
    unfolding stock_def m1 rs1 by (simp add: canvas_def)
  have d: "\<exists>es. ledger ?s2 = ledger ?s1 @ es \<and>
         map (\<lambda>e. (le_material e, le_txn_type e, le_quantity e, le_reference_id e)) es
           = [(1, IN, 6, 1)]"
    using l e unfolding qs i1 by (auto simp: accepted_lines_def quantity_for_def)
  from a b c d show ?thesis by blast
qed


end
